theory Spec2Isabelle
  imports Main "HOL-Library.Multiset"
begin

section \<open>The clocktower room server: data model\<close>

text \<open>
  The server keeps seven process-wide tables (\<open>rooms\<close>, \<open>players\<close>, \<open>playerRoles\<close>,
  \<open>deadPlayers\<close>, \<open>drunkPlayers\<close>, \<open>playerOrder\<close>, \<open>chatMessages\<close>) and every HTTP handler
  reads and mutates them. The model passes these tables around as one record; a handler is a
  function from the request's inputs and the tables to a response and the new tables.
  Socket broadcasts (\<open>io.to(code).emit\<close>) do not touch the tables and are left out.

  Strings (player ids, room codes, usernames, emoji, chat contents) are \<open>string\<close>s; letter
  case and white space are modelled on the ASCII range. A JavaScript value that may be
  \<open>null\<close> or \<open>undefined\<close> is an \<open>option\<close>.
\<close>

type_synonym pid = string
type_synonym code = string

record player =
  playerId :: pid
  username :: "string option"
  emoji :: string
  roomCode :: "code option"
  isHost :: bool

text \<open>An entry of a role set (\<open>roleDef\<close>) and a selected role, which also carries its category.\<close>

record roleDef =
  rd_name :: string
  rd_description :: string

record role =
  role_name :: string
  role_description :: string
  role_category :: string

record room =
  code :: code
  hostId :: pid
  room_players :: "pid list"
  createdAt :: nat
  selectedRoles :: "role list"
  rolesAssigned :: bool
  roleSet :: string

record message =
  msg_id :: string
  senderId :: pid
  senderEmoji :: string
  senderUsername :: "string option"
  isFromHost :: bool
  recipientId :: "pid option"
  content :: string
  timestamp :: nat

record state =
  rooms :: "code \<rightharpoonup> room"
  players :: "pid \<rightharpoonup> player"
  playerRoles :: "pid \<rightharpoonup> role"
  deadPlayers :: "code \<rightharpoonup> pid set"
  drunkPlayers :: "code \<rightharpoonup> pid set"
  playerOrder :: "code \<rightharpoonup> pid list"
  chatMessages :: "code \<rightharpoonup> message list"

definition initState :: state where
  "initState = \<lparr>rooms = Map.empty, players = Map.empty, playerRoles = Map.empty,
     deadPlayers = Map.empty, drunkPlayers = Map.empty, playerOrder = Map.empty,
     chatMessages = Map.empty\<rparr>"

text \<open>
  The reference data loaded at start-up: the role sets, each a name and a table from a
  category to its role definitions.
\<close>

record roleSetInfo =
  rs_name :: string
  rs_roles :: "string \<rightharpoonup> roleDef list"

type_synonym roleSets = "string \<rightharpoonup> roleSetInfo"

definition defaultRoleSet :: string where
  "defaultRoleSet = ''trouble_brewing''"

text \<open>\<open>const roles = roleSets[defaultRoleSet]?.roles || {}\<close>\<close>

definition roles :: "roleSets \<Rightarrow> (string \<rightharpoonup> roleDef list)" where
  "roles rsets = (case rsets defaultRoleSet of None \<Rightarrow> Map.empty | Some rs \<Rightarrow> rs_roles rs)"

text \<open>
  A response is an HTTP error (status and the \<open>error\<close> text of the JSON body), an exception
  that escapes the handler, or the handler's payload.
\<close>

datatype error = Error nat string | Uncaught string

subsection \<open>Strings\<close>

text \<open>
  A \<open>string\<close> is a list of 8-bit characters, and the model of the string operations is exact
  on ASCII text only. Outside ASCII it departs from JavaScript in three places:
  \<^item> \<open>toUpperCase\<close> and \<open>toLowerCase\<close> change the letters \<open>a\<close> to \<open>z\<close> and \<open>A\<close> to \<open>Z\<close> and
    nothing else, where JavaScript maps every cased Unicode letter (and can change the length,
    as for U+00DF);
  \<^item> \<open>trim\<close> strips the characters 9 to 13 and 32, where JavaScript also strips the Unicode
    white space and line terminators beyond ASCII (U+00A0, U+FEFF, U+2028 and others);
  \<^item> \<open>length\<close> counts characters of the list, where JavaScript's \<open>length\<close> counts UTF-16 code
    units, so the 500 limit of the chat handler is met at a different text when the content
    is not ASCII.
  Room codes are drawn from the upper-case ASCII letters, and the usernames \<open>luc\<close> and \<open>lucas\<close>
  are ASCII; no non-ASCII string becomes one of them under JavaScript's \<open>toLowerCase\<close>.
\<close>

definition upperChar :: "char \<Rightarrow> char" where
  "upperChar c = (let n = (of_char c :: nat) in if 97 \<le> n \<and> n \<le> 122 then char_of (n - 32) else c)"

definition lowerChar :: "char \<Rightarrow> char" where
  "lowerChar c = (let n = (of_char c :: nat) in if 65 \<le> n \<and> n \<le> 90 then char_of (n + 32) else c)"

definition toUpperCase :: "string \<Rightarrow> string" where
  "toUpperCase s = map upperChar s"

definition toLowerCase :: "string \<Rightarrow> string" where
  "toLowerCase s = map lowerChar s"

definition isSpace :: "char \<Rightarrow> bool" where
  "isSpace c = (let n = (of_char c :: nat) in (9 \<le> n \<and> n \<le> 13) \<or> n = 32)"

definition trim :: "string \<Rightarrow> string" where
  "trim s = rev (dropWhile isSpace (rev (dropWhile isSpace s)))"

text \<open>\<open>Number.prototype.toString\<close> on a non-negative integer: its decimal digits.\<close>

definition digit :: "nat \<Rightarrow> char" where
  "digit d = char_of (48 + d)"

fun showNat :: "nat \<Rightarrow> string" where
  "showNat n = (if n < 10 then [digit n] else showNat (n div 10) @ [digit (n mod 10)])"

declare showNat.simps [simp del]

text \<open>Truthiness of a value that is a string, \<open>null\<close> or \<open>undefined\<close>: the empty string is falsy.\<close>

definition truthy :: "string option \<Rightarrow> bool" where
  "truthy v = (case v of None \<Rightarrow> False | Some x \<Rightarrow> x \<noteq> [])"

text \<open>The avatar that the handlers give to \<open>luc\<close> and \<open>lucas\<close> (U+1F4A9, in UTF-8).\<close>

definition pooEmoji :: string where
  "pooEmoji = [CHR 0xF0, CHR 0x9F, CHR 0x92, CHR 0xA9]"

section \<open>The handlers\<close>

subsection \<open>Shared guards and helpers\<close>

text \<open>
  \<open>if (!playerId || !players.has(playerId)) return res.status(401)...\<close>: the cookie names
  a known player, or the handler answers 401. \<open>knownSession\<close> gives the player id and the
  player record that \<open>players.get(playerId)\<close> returns.
\<close>

definition knownSession :: "pid option \<Rightarrow> state \<Rightarrow> (pid \<times> player) option" where
  "knownSession cookie s =
     (case cookie of
        None \<Rightarrow> None
      | Some p \<Rightarrow> if p = [] then None
                  else (case players s p of None \<Rightarrow> None | Some pl \<Rightarrow> Some (p, pl)))"

definition invalidSession :: error where
  "invalidSession = Error 401 ''Invalid session''"

definition roomNotFound :: error where
  "roomNotFound = Error 404 ''Room not found''"

text \<open>
  A player record is a JavaScript object held in the \<open>players\<close> map and mutated in place;
  \<open>updPlayer p f\<close> is that mutation of the object stored under \<open>p\<close>.
\<close>

definition updPlayer :: "pid \<Rightarrow> (player \<Rightarrow> player) \<Rightarrow> state \<Rightarrow> state" where
  "updPlayer p f s =
     (case players s p of None \<Rightarrow> s | Some pl \<Rightarrow> s\<lparr>players := (players s)(p \<mapsto> f pl)\<rparr>)"

text \<open>The helper \<open>leaveRoom(playerId, roomCode)\<close>.\<close>

definition leaveRoom :: "pid \<Rightarrow> code \<Rightarrow> state \<Rightarrow> state" where
  "leaveRoom p rc s =
     (case rooms s rc of
        None \<Rightarrow> s
      | Some room \<Rightarrow>
          let ps = filter (\<lambda>i. i \<noteq> p) (room_players room);
              s1 = updPlayer p (\<lambda>pl. pl\<lparr>roomCode := None, isHost := False\<rparr>) s;
              s2 = s1\<lparr>playerRoles := (playerRoles s1)(p := None)\<rparr>
          in if length ps = 0
             then s2\<lparr>rooms := (rooms s2)(rc := None),
                     deadPlayers := (deadPlayers s2)(rc := None),
                     drunkPlayers := (drunkPlayers s2)(rc := None),
                     playerOrder := (playerOrder s2)(rc := None),
                     chatMessages := (chatMessages s2)(rc := None)\<rparr>
             else if hostId room = p
                  then let h = ps ! 0;
                           s3 = updPlayer h (\<lambda>pl. pl\<lparr>isHost := True\<rparr>) s2
                       in s3\<lparr>rooms := (rooms s3)(rc \<mapsto> room\<lparr>room_players := ps, hostId := h\<rparr>)\<rparr>
                  else s2\<lparr>rooms := (rooms s2)(rc \<mapsto> room\<lparr>room_players := ps\<rparr>)\<rparr>)"

text \<open>\<open>if (player.roomCode && rooms.has(player.roomCode)) leaveRoom(playerId, player.roomCode)\<close>\<close>

definition leaveCurrent :: "pid \<Rightarrow> state \<Rightarrow> state" where
  "leaveCurrent p s =
     (case players s p of
        None \<Rightarrow> s
      | Some pl \<Rightarrow>
          (case roomCode pl of
             None \<Rightarrow> s
           | Some rc \<Rightarrow> if rc \<noteq> [] \<and> rooms s rc \<noteq> None then leaveRoom p rc s else s))"

text \<open>The block \<open>// Special emoji for luc/lucas\<close> of the create and join handlers.\<close>

definition specialEmoji :: "player \<Rightarrow> player" where
  "specialEmoji pl =
     (let lowerUsername = toLowerCase (case username pl of None \<Rightarrow> [] | Some u \<Rightarrow> u)
      in if lowerUsername = ''luc'' \<or> lowerUsername = ''lucas''
         then pl\<lparr>emoji := pooEmoji\<rparr> else pl)"

text \<open>
  \<open>generateRoomCode\<close> draws four letters and draws again while the code is taken. The
  random draws are an input: each draw is four indices into \<open>letters\<close>
  (\<open>Math.floor(Math.random() * letters.length)\<close>, taken modulo the length here). The loop has
  no bound in the source; a list of draws that are all taken gives \<open>None\<close>.
\<close>

definition letters :: string where
  "letters = ''ABCDEFGHJKLMNPQRSTUVWXYZ''"

type_synonym draw = "nat \<times> nat \<times> nat \<times> nat"

definition letterAt :: "nat \<Rightarrow> char" where
  "letterAt i = letters ! (i mod length letters)"

fun drawCode :: "draw \<Rightarrow> code" where
  "drawCode (a, b, c, d) = [letterAt a, letterAt b, letterAt c, letterAt d]"

fun generateRoomCode :: "(code \<rightharpoonup> room) \<Rightarrow> draw list \<Rightarrow> code option" where
  "generateRoomCode rs [] = None"
| "generateRoomCode rs (d # ds) =
     (if rs (drawCode d) \<noteq> None then generateRoomCode rs ds else Some (drawCode d))"

subsection \<open>Sessions and profiles\<close>

text \<open>
  \<open>GET /api/session\<close>. \<open>newId\<close> is the value of \<open>uuidv4()\<close> and \<open>e\<close> the value of
  \<open>getRandomEmoji()\<close>, both used only when the cookie names no known player.
\<close>

definition getSession :: "pid option \<Rightarrow> pid \<Rightarrow> string \<Rightarrow> state \<Rightarrow> player \<times> state" where
  "getSession cookie newId e s =
     (case knownSession cookie s of
        Some (p, pl) \<Rightarrow> (pl, s)
      | None \<Rightarrow>
          let pl = \<lparr>playerId = newId, username = None, emoji = e, roomCode = None, isHost = False\<rparr>
          in (pl, s\<lparr>players := (players s)(newId \<mapsto> pl)\<rparr>))"

definition postUsername :: "pid option \<Rightarrow> string option \<Rightarrow> state \<Rightarrow> (error + player) \<times> state" where
  "postUsername cookie u s =
     (case knownSession cookie s of
        None \<Rightarrow> (Inl invalidSession, s)
      | Some (p, pl) \<Rightarrow>
          let pl' = pl\<lparr>username := u\<rparr> in (Inr pl', s\<lparr>players := (players s)(p \<mapsto> pl')\<rparr>))"

definition postEmoji :: "pid option \<Rightarrow> string option \<Rightarrow> state \<Rightarrow> (error + player) \<times> state" where
  "postEmoji cookie e s =
     (case knownSession cookie s of
        None \<Rightarrow> (Inl invalidSession, s)
      | Some (p, pl) \<Rightarrow>
          (case e of
             None \<Rightarrow> (Inl (Error 400 ''Emoji is required''), s)
           | Some em \<Rightarrow>
               if em = [] then (Inl (Error 400 ''Emoji is required''), s)
               else let pl' = pl\<lparr>emoji := em\<rparr>
                    in (Inr pl', s\<lparr>players := (players s)(p \<mapsto> pl')\<rparr>)))"

subsection \<open>Rooms: create, join, leave\<close>

text \<open>
  \<open>POST /api/room/create\<close>. \<open>draws\<close> feeds \<open>generateRoomCode\<close>, \<open>now\<close> is \<open>Date.now()\<close>.
  The result is \<open>None\<close> when \<open>generateRoomCode\<close> never returns.
\<close>

definition createRoom ::
  "pid option \<Rightarrow> draw list \<Rightarrow> nat \<Rightarrow> state \<Rightarrow> ((error + room \<times> player) \<times> state) option" where
  "createRoom cookie draws now s =
     (case knownSession cookie s of
        None \<Rightarrow> Some (Inl invalidSession, s)
      | Some (p, _) \<Rightarrow>
          let s1 = leaveCurrent p s;
              s2 = updPlayer p specialEmoji s1
          in (case generateRoomCode (rooms s2) draws of
                None \<Rightarrow> None
              | Some rc \<Rightarrow>
                  let room = \<lparr>code = rc, hostId = p, room_players = [p], createdAt = now,
                              selectedRoles = [], rolesAssigned = False, roleSet = defaultRoleSet\<rparr>;
                      s3 = s2\<lparr>rooms := (rooms s2)(rc \<mapsto> room)\<rparr>;
                      s4 = updPlayer p (\<lambda>pl. pl\<lparr>roomCode := Some rc, isHost := True\<rparr>) s3
                  in Some (Inr (room, the (players s4 p)), s4)))"

text \<open>
  \<open>POST /api/room/join\<close>. The room is looked up before the player leaves the current room;
  when that leave deletes the very room being joined, \<open>rooms.get(code)\<close> is \<open>undefined\<close>
  and \<open>room.players\<close> throws.
\<close>

definition joinRoom :: "pid option \<Rightarrow> string \<Rightarrow> state \<Rightarrow> (error + room \<times> player) \<times> state" where
  "joinRoom cookie rawCode s =
     (case knownSession cookie s of
        None \<Rightarrow> (Inl invalidSession, s)
      | Some (p, _) \<Rightarrow>
          let c = toUpperCase rawCode
          in if rooms s c = None then (Inl roomNotFound, s)
             else let s1 = leaveCurrent p s;
                      s2 = updPlayer p specialEmoji s1
                  in (case rooms s2 c of
                        None \<Rightarrow> (Inl (Uncaught ''TypeError''), s2)
                      | Some room \<Rightarrow>
                          let room' = (if p \<in> set (room_players room) then room
                                       else room\<lparr>room_players := room_players room @ [p]\<rparr>);
                              s3 = s2\<lparr>rooms := (rooms s2)(c \<mapsto> room')\<rparr>;
                              s4 = updPlayer p
                                     (\<lambda>pl. pl\<lparr>roomCode := Some c, isHost := (hostId room' = p)\<rparr>) s3
                          in (Inr (room', the (players s4 p)), s4)))"

definition postLeave :: "pid option \<Rightarrow> state \<Rightarrow> (error + unit) \<times> state" where
  "postLeave cookie s =
     (case knownSession cookie s of
        None \<Rightarrow> (Inl invalidSession, s)
      | Some (p, _) \<Rightarrow> (Inr (), leaveCurrent p s))"

subsection \<open>Seating order\<close>

text \<open>
  The order computed on read by \<open>GET /api/room/:code\<close>:
  \<open>playerOrder.get(code) || room.players\<close> (an array, even an empty one, is truthy), the
  entries that are still members, then the members not yet in it.
\<close>

definition finalOrder :: "pid list option \<Rightarrow> pid list \<Rightarrow> pid list" where
  "finalOrder stored members =
     (let orderedPlayerIds = (case stored of None \<Rightarrow> members | Some ord \<Rightarrow> ord);
          validOrderedIds = filter (\<lambda>i. i \<in> set members) orderedPlayerIds;
          newPlayers = filter (\<lambda>i. i \<notin> set validOrderedIds) members
      in validOrderedIds @ newPlayers)"

text \<open>
  \<open>GET /api/room/:code\<close> answers with the room, the known players in the final order, each
  with its dead flag, and the final order itself (the role-set name and roles that the
  response also carries are left out).
\<close>

definition getRoom :: "string \<Rightarrow> state \<Rightarrow> error + room \<times> (player \<times> bool) list \<times> pid list" where
  "getRoom rawCode s =
     (let c = toUpperCase rawCode
      in case rooms s c of
           None \<Rightarrow> Inl roomNotFound
         | Some room \<Rightarrow>
             let roomDeadPlayers = (case deadPlayers s c of None \<Rightarrow> {} | Some d \<Rightarrow> d);
                 ord = finalOrder (playerOrder s c) (room_players room);
                 roomPlayers = List.map_filter
                   (\<lambda>i. map_option (\<lambda>pl. (pl, i \<in> roomDeadPlayers)) (players s i)) ord
             in Inr (room, roomPlayers, ord))"

definition postPlayerOrder ::
  "pid option \<Rightarrow> string \<Rightarrow> pid list \<Rightarrow> state \<Rightarrow> (error + pid list) \<times> state" where
  "postPlayerOrder cookie rawCode ord s =
     (let c = toUpperCase rawCode
      in case knownSession cookie s of
           None \<Rightarrow> (Inl invalidSession, s)
         | Some (p, _) \<Rightarrow>
             (case rooms s c of
                None \<Rightarrow> (Inl roomNotFound, s)
              | Some room \<Rightarrow>
                  if hostId room \<noteq> p
                  then (Inl (Error 403 ''Only the host can change player order''), s)
                  else let validOrder = filter (\<lambda>i. i \<in> set (room_players room)) ord
                       in (Inr validOrder, s\<lparr>playerOrder := (playerOrder s)(c \<mapsto> validOrder)\<rparr>)))"

subsection \<open>Role set and role selection\<close>

definition postRoleSet ::
  "roleSets \<Rightarrow> pid option \<Rightarrow> string \<Rightarrow> string \<Rightarrow> state \<Rightarrow> (error + string \<times> string) \<times> state" where
  "postRoleSet rsets cookie rawCode rset s =
     (let c = toUpperCase rawCode
      in case knownSession cookie s of
           None \<Rightarrow> (Inl invalidSession, s)
         | Some (p, _) \<Rightarrow>
             (case rooms s c of
                None \<Rightarrow> (Inl roomNotFound, s)
              | Some room \<Rightarrow>
                  if hostId room \<noteq> p
                  then (Inl (Error 403 ''Only the host can change settings''), s)
                  else (case rsets rset of
                          None \<Rightarrow> (Inl (Error 400 ''Invalid role set''), s)
                        | Some info \<Rightarrow>
                            (Inr (rset, rs_name info),
                             s\<lparr>rooms := (rooms s)(c \<mapsto> room\<lparr>roleSet := rset, selectedRoles := []\<rparr>)\<rparr>))))"

definition validCategories :: "string list" where
  "validCategories = [''Townsfolk'', ''Outsiders'', ''Minions'', ''Demons'']"

text \<open>
  The inner loop of the selected-roles handler: the first category, in the order of
  \<open>validCategories\<close>, that holds a role of the asked name gives the stored entry.
\<close>

fun lookupRole :: "(string \<rightharpoonup> roleDef list) \<Rightarrow> string list \<Rightarrow> string \<Rightarrow> role option" where
  "lookupRole roomRoles [] n = None"
| "lookupRole roomRoles (cat # cats) n =
     (case roomRoles cat of
        None \<Rightarrow> lookupRole roomRoles cats n
      | Some defs \<Rightarrow>
          (case find (\<lambda>r. rd_name r = n) defs of
             None \<Rightarrow> lookupRole roomRoles cats n
           | Some foundRole \<Rightarrow>
               Some \<lparr>role_name = rd_name foundRole, role_description = rd_description foundRole,
                     role_category = cat\<rparr>))"

definition postSelectedRoles ::
  "roleSets \<Rightarrow> pid option \<Rightarrow> string \<Rightarrow> role list \<Rightarrow> state \<Rightarrow> (error + role list) \<times> state" where
  "postSelectedRoles rsets cookie rawCode sel s =
     (let c = toUpperCase rawCode
      in case knownSession cookie s of
           None \<Rightarrow> (Inl invalidSession, s)
         | Some (p, _) \<Rightarrow>
             (case rooms s c of
                None \<Rightarrow> (Inl roomNotFound, s)
              | Some room \<Rightarrow>
                  if hostId room \<noteq> p
                  then (Inl (Error 403 ''Only the host can change settings''), s)
                  else let roomRoles = (case rsets (roleSet room) of
                                          None \<Rightarrow> roles rsets | Some info \<Rightarrow> rs_roles info);
                           validRoles = List.map_filter
                             (\<lambda>r. lookupRole roomRoles validCategories (role_name r)) sel
                       in (Inr validRoles,
                           s\<lparr>rooms := (rooms s)(c \<mapsto> room\<lparr>selectedRoles := validRoles\<rparr>)\<rparr>)))"

subsection \<open>Role assignment\<close>

text \<open>
  \<open>for (const pid of room.players) playerRoles.delete(pid)\<close>, and the pairing loop
  \<open>playerRoles.set(shuffledPlayers[i], shuffledRoles[i])\<close> for \<open>i\<close> below the number of
  shuffled roles (an index past the shuffled players would set the key \<open>undefined\<close>, which is
  no player id: \<open>zip\<close> stops there).
\<close>

definition clearRoles :: "pid list \<Rightarrow> (pid \<rightharpoonup> role) \<Rightarrow> (pid \<rightharpoonup> role)" where
  "clearRoles ps pr = fold (\<lambda>p m. m(p := None)) ps pr"

definition pairRoles :: "pid list \<Rightarrow> role list \<Rightarrow> (pid \<rightharpoonup> role) \<Rightarrow> (pid \<rightharpoonup> role)" where
  "pairRoles ps rs pr = fold (\<lambda>(p, r) m. m(p \<mapsto> r)) (zip ps rs) pr"

definition countMismatch :: "nat \<Rightarrow> nat \<Rightarrow> error" where
  "countMismatch np nr =
     Error 400 (''Role count must match player count. You have '' @ showNat np
                @ '' players but '' @ showNat nr @ '' roles selected.'')"

text \<open>
  \<open>POST /api/room/:code/assign-roles\<close>. The two shuffles are
  \<open>[...xs].sort(() => Math.random() - 0.5)\<close>; what \<open>sort\<close> returns under a random comparator
  is an input of the model: \<open>shufflePlayers\<close> and \<open>shuffleRoles\<close>. The payload is
  \<open>totalAssigned\<close>.
\<close>

definition assignRoles ::
  "pid option \<Rightarrow> string \<Rightarrow> (pid list \<Rightarrow> pid list) \<Rightarrow> (role list \<Rightarrow> role list) \<Rightarrow> state
     \<Rightarrow> (error + nat) \<times> state" where
  "assignRoles cookie rawCode shufflePlayers shuffleRoles s =
     (let c = toUpperCase rawCode
      in case knownSession cookie s of
           None \<Rightarrow> (Inl invalidSession, s)
         | Some (p, _) \<Rightarrow>
             (case rooms s c of
                None \<Rightarrow> (Inl roomNotFound, s)
              | Some room \<Rightarrow>
                  if hostId room \<noteq> p
                  then (Inl (Error 403 ''Only the host can assign roles''), s)
                  else if length (selectedRoles room) = 0
                  then (Inl (Error 400 ''No roles selected''), s)
                  else let eligiblePlayers = filter (\<lambda>i. i \<noteq> hostId room) (room_players room)
                       in if length eligiblePlayers \<noteq> length (selectedRoles room)
                          then (Inl (countMismatch (length eligiblePlayers)
                                       (length (selectedRoles room))), s)
                          else let cleared = clearRoles (room_players room) (playerRoles s);
                                   shuffledPlayers = shufflePlayers eligiblePlayers;
                                   shuffledRoles = shuffleRoles (selectedRoles room)
                               in (Inr (length shuffledRoles),
                                   s\<lparr>playerRoles := pairRoles shuffledPlayers shuffledRoles cleared,
                                     rooms := (rooms s)(c \<mapsto> room\<lparr>rolesAssigned := True\<rparr>)\<rparr>)))"

definition getMyRole :: "pid option \<Rightarrow> state \<Rightarrow> error + role option" where
  "getMyRole cookie s =
     (case knownSession cookie s of
        None \<Rightarrow> Inl invalidSession
      | Some (p, _) \<Rightarrow> Inr (playerRoles s p))"

definition resetRoles :: "pid option \<Rightarrow> string \<Rightarrow> state \<Rightarrow> (error + unit) \<times> state" where
  "resetRoles cookie rawCode s =
     (let c = toUpperCase rawCode
      in case knownSession cookie s of
           None \<Rightarrow> (Inl invalidSession, s)
         | Some (p, _) \<Rightarrow>
             (case rooms s c of
                None \<Rightarrow> (Inl roomNotFound, s)
              | Some room \<Rightarrow>
                  if hostId room \<noteq> p
                  then (Inl (Error 403 ''Only the host can reset roles''), s)
                  else (Inr (),
                        s\<lparr>playerRoles := clearRoles (room_players room) (playerRoles s),
                          deadPlayers := (deadPlayers s)(c := None),
                          drunkPlayers := (drunkPlayers s)(c := None),
                          chatMessages := (chatMessages s)(c := None),
                          rooms := (rooms s)(c \<mapsto> room\<lparr>rolesAssigned := False\<rparr>)\<rparr>)))"

subsection \<open>Status overlays\<close>

definition playerNotInRoom :: error where
  "playerNotInRoom = Error 400 ''Player not in room''"

text \<open>
  The four overlay handlers differ in the table they touch, in whether they add or delete,
  and in one guard: kill-player and mark-drunk check \<open>room.players.includes(targetPlayerId)\<close>,
  revive-player and unmark-drunk have no such check.
\<close>

definition killPlayer :: "pid option \<Rightarrow> string \<Rightarrow> pid \<Rightarrow> state \<Rightarrow> (error + unit) \<times> state" where
  "killPlayer cookie rawCode targetPlayerId s =
     (let c = toUpperCase rawCode
      in case knownSession cookie s of
           None \<Rightarrow> (Inl invalidSession, s)
         | Some (p, _) \<Rightarrow>
             (case rooms s c of
                None \<Rightarrow> (Inl roomNotFound, s)
              | Some room \<Rightarrow>
                  if hostId room \<noteq> p
                  then (Inl (Error 403 ''Only the host can mark players as dead''), s)
                  else if targetPlayerId \<notin> set (room_players room)
                  then (Inl playerNotInRoom, s)
                  else let roomDeadPlayers = (case deadPlayers s c of None \<Rightarrow> {} | Some d \<Rightarrow> d)
                       in (Inr (),
                           s\<lparr>deadPlayers :=
                               (deadPlayers s)(c \<mapsto> insert targetPlayerId roomDeadPlayers)\<rparr>)))"

definition revivePlayer :: "pid option \<Rightarrow> string \<Rightarrow> pid \<Rightarrow> state \<Rightarrow> (error + unit) \<times> state" where
  "revivePlayer cookie rawCode targetPlayerId s =
     (let c = toUpperCase rawCode
      in case knownSession cookie s of
           None \<Rightarrow> (Inl invalidSession, s)
         | Some (p, _) \<Rightarrow>
             (case rooms s c of
                None \<Rightarrow> (Inl roomNotFound, s)
              | Some room \<Rightarrow>
                  if hostId room \<noteq> p
                  then (Inl (Error 403 ''Only the host can revive players''), s)
                  else (Inr (),
                        (case deadPlayers s c of
                           None \<Rightarrow> s
                         | Some d \<Rightarrow> s\<lparr>deadPlayers := (deadPlayers s)(c \<mapsto> d - {targetPlayerId})\<rparr>))))"

definition markDrunk :: "pid option \<Rightarrow> string \<Rightarrow> pid \<Rightarrow> state \<Rightarrow> (error + unit) \<times> state" where
  "markDrunk cookie rawCode targetPlayerId s =
     (let c = toUpperCase rawCode
      in case knownSession cookie s of
           None \<Rightarrow> (Inl invalidSession, s)
         | Some (p, _) \<Rightarrow>
             (case rooms s c of
                None \<Rightarrow> (Inl roomNotFound, s)
              | Some room \<Rightarrow>
                  if hostId room \<noteq> p
                  then (Inl (Error 403 ''Only the host can mark players as drunk''), s)
                  else if targetPlayerId \<notin> set (room_players room)
                  then (Inl playerNotInRoom, s)
                  else let roomDrunkPlayers = (case drunkPlayers s c of None \<Rightarrow> {} | Some d \<Rightarrow> d)
                       in (Inr (),
                           s\<lparr>drunkPlayers :=
                               (drunkPlayers s)(c \<mapsto> insert targetPlayerId roomDrunkPlayers)\<rparr>)))"

definition unmarkDrunk :: "pid option \<Rightarrow> string \<Rightarrow> pid \<Rightarrow> state \<Rightarrow> (error + unit) \<times> state" where
  "unmarkDrunk cookie rawCode targetPlayerId s =
     (let c = toUpperCase rawCode
      in case knownSession cookie s of
           None \<Rightarrow> (Inl invalidSession, s)
         | Some (p, _) \<Rightarrow>
             (case rooms s c of
                None \<Rightarrow> (Inl roomNotFound, s)
              | Some room \<Rightarrow>
                  if hostId room \<noteq> p
                  then (Inl (Error 403 ''Only the host can unmark players as drunk''), s)
                  else (Inr (),
                        (case drunkPlayers s c of
                           None \<Rightarrow> s
                         | Some d \<Rightarrow> s\<lparr>drunkPlayers := (drunkPlayers s)(c \<mapsto> d - {targetPlayerId})\<rparr>))))"

subsection \<open>Chat\<close>

text \<open>
  \<open>POST /api/room/:code/chat\<close>. \<open>Date.now()\<close> is read twice, for the id (\<open>now1\<close>) and for
  the timestamp (\<open>now2\<close>). The stored recipient is \<open>recipientId || null\<close>.
\<close>

definition postChat ::
  "pid option \<Rightarrow> string \<Rightarrow> string option \<Rightarrow> pid option \<Rightarrow> nat \<Rightarrow> nat \<Rightarrow> state
     \<Rightarrow> (error + message) \<times> state" where
  "postChat cookie rawCode body recipient now1 now2 s =
     (let c = toUpperCase rawCode
      in case knownSession cookie s of
           None \<Rightarrow> (Inl invalidSession, s)
         | Some (p, sender) \<Rightarrow>
             (case rooms s c of
                None \<Rightarrow> (Inl roomNotFound, s)
              | Some room \<Rightarrow>
                  if p \<notin> set (room_players room)
                  then (Inl (Error 403 ''You are not in this room''), s)
                  else
                    (case body of
                       None \<Rightarrow> (Inl (Error 400 ''Message cannot be empty''), s)
                     | Some txt \<Rightarrow>
                         if txt = [] \<or> length (trim txt) = 0
                         then (Inl (Error 400 ''Message cannot be empty''), s)
                         else if length txt > 500
                         then (Inl (Error 400 ''Message too long (max 500 characters)''), s)
                         else if hostId room \<noteq> p \<and> recipient \<noteq> Some (hostId room)
                         then (Inl (Error 403 ''Players can only message the host''), s)
                         else if hostId room = p \<and> truthy recipient
                                 \<and> the recipient \<notin> set (room_players room)
                         then (Inl (Error 400 ''Invalid recipient''), s)
                         else
                           let msg = \<lparr>msg_id = showNat now1, senderId = p,
                                      senderEmoji = emoji sender, senderUsername = username sender,
                                      isFromHost = (hostId room = p),
                                      recipientId = (if truthy recipient then recipient else None),
                                      content = trim txt, timestamp = now2\<rparr>;
                               old = (case chatMessages s c of None \<Rightarrow> [] | Some ms \<Rightarrow> ms)
                           in (Inr msg, s\<lparr>chatMessages := (chatMessages s)(c \<mapsto> old @ [msg])\<rparr>))))"

text \<open>The filter of the chat history: \<open>if (!msg.recipientId) return true; ...\<close>\<close>

definition visibleTo :: "pid \<Rightarrow> message \<Rightarrow> bool" where
  "visibleTo p msg =
     (if \<not> truthy (recipientId msg) then True
      else recipientId msg = Some p \<or> senderId msg = p)"

definition getChat :: "pid option \<Rightarrow> string \<Rightarrow> state \<Rightarrow> error + message list" where
  "getChat cookie rawCode s =
     (let c = toUpperCase rawCode
      in case knownSession cookie s of
           None \<Rightarrow> Inl invalidSession
         | Some (p, _) \<Rightarrow>
             (case rooms s c of
                None \<Rightarrow> Inl roomNotFound
              | Some room \<Rightarrow>
                  if p \<notin> set (room_players room) then Inl (Error 403 ''Not in room'')
                  else let allMessages = (case chatMessages s c of None \<Rightarrow> [] | Some ms \<Rightarrow> ms)
                       in Inr (filter (visibleTo p) allMessages)))"

section \<open>Reachable states\<close>

text \<open>
  A request that can change the tables, with the inputs the handler takes from the request
  and from the environment (random draws, clock readings, the outcome of a shuffle).
\<close>

datatype request =
    GetSession "pid option" pid string
  | PostUsername "pid option" "string option"
  | PostEmoji "pid option" "string option"
  | PostCreate "pid option" "draw list" nat
  | PostJoin "pid option" string
  | PostLeave "pid option"
  | PostPlayerOrder "pid option" string "pid list"
  | PostRoleSet "pid option" string string
  | PostSelectedRoles "pid option" string "role list"
  | PostAssignRoles "pid option" string "pid list \<Rightarrow> pid list" "role list \<Rightarrow> role list"
  | PostResetRoles "pid option" string
  | PostKillPlayer "pid option" string pid
  | PostRevivePlayer "pid option" string pid
  | PostMarkDrunk "pid option" string pid
  | PostUnmarkDrunk "pid option" string pid
  | PostChat "pid option" string "string option" "pid option" nat nat

fun step :: "roleSets \<Rightarrow> request \<Rightarrow> state \<Rightarrow> state option" where
  "step rsets (GetSession ck newId e) s = Some (snd (getSession ck newId e s))"
| "step rsets (PostUsername ck u) s = Some (snd (postUsername ck u s))"
| "step rsets (PostEmoji ck e) s = Some (snd (postEmoji ck e s))"
| "step rsets (PostCreate ck draws now) s = map_option snd (createRoom ck draws now s)"
| "step rsets (PostJoin ck rc) s = Some (snd (joinRoom ck rc s))"
| "step rsets (PostLeave ck) s = Some (snd (postLeave ck s))"
| "step rsets (PostPlayerOrder ck rc ord) s = Some (snd (postPlayerOrder ck rc ord s))"
| "step rsets (PostRoleSet ck rc rset) s = Some (snd (postRoleSet rsets ck rc rset s))"
| "step rsets (PostSelectedRoles ck rc sel) s = Some (snd (postSelectedRoles rsets ck rc sel s))"
| "step rsets (PostAssignRoles ck rc f g) s = Some (snd (assignRoles ck rc f g s))"
| "step rsets (PostResetRoles ck rc) s = Some (snd (resetRoles ck rc s))"
| "step rsets (PostKillPlayer ck rc t) s = Some (snd (killPlayer ck rc t s))"
| "step rsets (PostRevivePlayer ck rc t) s = Some (snd (revivePlayer ck rc t s))"
| "step rsets (PostMarkDrunk ck rc t) s = Some (snd (markDrunk ck rc t s))"
| "step rsets (PostUnmarkDrunk ck rc t) s = Some (snd (unmarkDrunk ck rc t s))"
| "step rsets (PostChat ck rc body rcp now1 now2) s = Some (snd (postChat ck rc body rcp now1 now2 s))"

text \<open>
  What the model assumes of the environment: \<open>uuidv4()\<close> returns a non-empty id that no
  player has yet.
\<close>

fun envOk :: "state \<Rightarrow> request \<Rightarrow> bool" where
  "envOk s (GetSession ck newId e) = (newId \<noteq> [] \<and> players s newId = None)"
| "envOk s _ = True"

inductive reachable :: "roleSets \<Rightarrow> state \<Rightarrow> bool" for rsets :: roleSets where
  reachable_init: "reachable rsets initState"
| reachable_step: "reachable rsets s \<Longrightarrow> envOk s req \<Longrightarrow> step rsets req s = Some s'
                   \<Longrightarrow> reachable rsets s'"

section \<open>Consistency of the tables\<close>

text \<open>
  What every reachable state satisfies: no player has the empty id; every room of the registry
  has a non-empty upper-case code, a non-empty list of distinct members that contains the host,
  and each member's record names the room; no stored message has an empty recipient.
\<close>

definition memberOf :: "state \<Rightarrow> pid \<Rightarrow> code \<Rightarrow> bool" where
  "memberOf s p c = (map_option roomCode (players s p) = Some (Some c))"

definition roomOk :: "state \<Rightarrow> code \<Rightarrow> room \<Rightarrow> bool" where
  "roomOk s c r = (c \<noteq> [] \<and> toUpperCase c = c \<and> room_players r \<noteq> [] \<and> distinct (room_players r)
     \<and> hostId r \<in> set (room_players r) \<and> (\<forall>p\<in>set (room_players r). memberOf s p c))"

definition roomsOk :: "state \<Rightarrow> bool" where
  "roomsOk s = (\<forall>c r. rooms s c = Some r \<longrightarrow> roomOk s c r)"

definition chatOk :: "state \<Rightarrow> bool" where
  "chatOk s = (\<forall>c ms. chatMessages s c = Some ms \<longrightarrow> (\<forall>m\<in>set ms. recipientId m \<noteq> Some []))"

definition consistent :: "state \<Rightarrow> bool" where
  "consistent s = (players s [] = None \<and> roomsOk s \<and> chatOk s)"

definition inNoRoom :: "state \<Rightarrow> pid \<Rightarrow> bool" where
  "inNoRoom s p = (\<forall>c r. rooms s c = Some r \<longrightarrow> p \<notin> set (room_players r))"

text \<open>Running a list of requests from a state, each under the environment's assumptions.\<close>

fun run :: "roleSets \<Rightarrow> request list \<Rightarrow> state \<Rightarrow> state option" where
  "run rsets [] s = Some s"
| "run rsets (req # reqs) s =
     (if envOk s req
      then (case step rsets req s of None \<Rightarrow> None | Some s' \<Rightarrow> run rsets reqs s')
      else None)"

text \<open>
  An example: three sessions, a room created by \<open>h\<close> and joined by \<open>p1\<close> and \<open>p2\<close>, two
  roles selected.
\<close>

definition exRoleSets :: roleSets where
  "exRoleSets = [''trouble_brewing'' \<mapsto>
     \<lparr>rs_name = ''Trouble Brewing'',
      rs_roles = [''Townsfolk'' \<mapsto> [\<lparr>rd_name = ''Chef'', rd_description = ''cooks''\<rparr>,
                                      \<lparr>rd_name = ''Empath'', rd_description = ''feels''\<rparr>],
                  ''Demons'' \<mapsto> [\<lparr>rd_name = ''Imp'', rd_description = ''kills''\<rparr>]]\<rparr>]"

definition exChef :: role where
  "exChef = \<lparr>role_name = ''Chef'', role_description = ''cooks'', role_category = ''Townsfolk''\<rparr>"

definition exImp :: role where
  "exImp = \<lparr>role_name = ''Imp'', role_description = ''kills'', role_category = ''Demons''\<rparr>"

definition exRequests :: "request list" where
  "exRequests =
     [GetSession None ''h'' ''cat'', GetSession None ''p1'' ''dog'', GetSession None ''p2'' ''fox'',
      PostCreate (Some ''h'') [(0, 1, 2, 3)] 1000,
      PostJoin (Some ''p1'') ''abcd'', PostJoin (Some ''p2'') ''ABCD'',
      PostSelectedRoles (Some ''h'') ''ABCD'' [exChef, exImp]]"

definition exRoom :: room where
  "exRoom = \<lparr>code = ''ABCD'', hostId = ''h'', room_players = [''h'', ''p1'', ''p2''],
     createdAt = 1000, selectedRoles = [exChef, exImp], rolesAssigned = False,
     roleSet = ''trouble_brewing''\<rparr>"

definition exState :: state where
  "exState = \<lparr>rooms = [''ABCD'' \<mapsto> exRoom],
     players = [''h'' \<mapsto> \<lparr>playerId = ''h'', username = None, emoji = ''cat'',
                              roomCode = Some ''ABCD'', isHost = True\<rparr>,
                ''p1'' \<mapsto> \<lparr>playerId = ''p1'', username = None, emoji = ''dog'',
                              roomCode = Some ''ABCD'', isHost = False\<rparr>,
                ''p2'' \<mapsto> \<lparr>playerId = ''p2'', username = None, emoji = ''fox'',
                              roomCode = Some ''ABCD'', isHost = False\<rparr>],
     playerRoles = Map.empty, deadPlayers = Map.empty, drunkPlayers = Map.empty,
     playerOrder = Map.empty, chatMessages = Map.empty\<rparr>"

text \<open>The example room with three selected roles and a role left from an earlier game.\<close>

definition exMismatch :: state where
  "exMismatch = exState\<lparr>rooms := [''ABCD'' \<mapsto> exRoom\<lparr>selectedRoles := [exChef, exImp, exChef]\<rparr>],
                      playerRoles := [''p1'' \<mapsto> exImp]\<rparr>"

text \<open>The example after three chat messages: a broadcast, a whisper to \<open>p1\<close>, a note to the host.\<close>

definition exChatRequests :: "request list" where
  "exChatRequests =
     [PostChat (Some ''h'') ''ABCD'' (Some ''hello all'') None 5 5,
      PostChat (Some ''h'') ''ABCD'' (Some ''psst'') (Some ''p1'') 6 6,
      PostChat (Some ''p2'') ''ABCD'' (Some ''hi host'') (Some ''h'') 7 7]"

definition exMsg :: "string \<Rightarrow> pid \<Rightarrow> string \<Rightarrow> bool \<Rightarrow> pid option \<Rightarrow> string \<Rightarrow> nat \<Rightarrow> message" where
  "exMsg i p e h r txt t = \<lparr>msg_id = i, senderId = p, senderEmoji = e, senderUsername = None,
     isFromHost = h, recipientId = r, content = txt, timestamp = t\<rparr>"

definition exMessages :: "message list" where
  "exMessages =
     [exMsg ''5'' ''h'' ''cat'' True None ''hello all'' 5,
      exMsg ''6'' ''h'' ''cat'' True (Some ''p1'') ''psst'' 6,
      exMsg ''7'' ''p2'' ''fox'' False (Some ''h'') ''hi host'' 7]"

definition exChatState :: state where
  "exChatState = exState\<lparr>chatMessages := [''ABCD'' \<mapsto> exMessages]\<rparr>"

text \<open>The number that a string of decimal digits denotes.\<close>

definition decimalValue :: "string \<Rightarrow> nat" where
  "decimalValue ds = fold (\<lambda>ch acc. acc * 10 + (of_char ch - 48)) ds 0"

text \<open>The example with the username \<open>Luc\<close> set for \<open>p1\<close>.\<close>

definition exLuc :: state where
  "exLuc = exState\<lparr>players := (players exState)(''p1'' \<mapsto>
     \<lparr>playerId = ''p1'', username = Some ''Luc'', emoji = ''dog'',
      roomCode = Some ''ABCD'', isHost = False\<rparr>)\<rparr>"

text \<open>Two messages sent to the example room at the same clock reading.\<close>

definition exSameClock1 :: "(error + message) \<times> state" where
  "exSameClock1 = postChat (Some ''h'') ''ABCD'' (Some ''first'') None 5 5 exState"

definition exSameClock2 :: "(error + message) \<times> state" where
  "exSameClock2 = postChat (Some ''p2'') ''ABCD'' (Some ''second'') (Some ''h'') 5 5 (snd exSameClock1)"

text \<open>
  The example continued: the host stores the seating order \<open>p2, p1\<close>, marks \<open>p1\<close> dead and
  drunk, and \<open>p1\<close> leaves the room.
\<close>

definition exLeaveRequests :: "request list" where
  "exLeaveRequests =
     [PostPlayerOrder (Some ''h'') ''ABCD'' [''p2'', ''p1''],
      PostKillPlayer (Some ''h'') ''ABCD'' ''p1'',
      PostMarkDrunk (Some ''h'') ''ABCD'' ''p1'',
      PostLeave (Some ''p1'')]"

definition exLeftRoom :: room where
  "exLeftRoom = exRoom\<lparr>room_players := [''h'', ''p2'']\<rparr>"

definition exLeft :: state where
  "exLeft = \<lparr>rooms = [''ABCD'' \<mapsto> exLeftRoom],
     players = [''h'' \<mapsto> \<lparr>playerId = ''h'', username = None, emoji = ''cat'',
                              roomCode = Some ''ABCD'', isHost = True\<rparr>,
                ''p1'' \<mapsto> \<lparr>playerId = ''p1'', username = None, emoji = ''dog'',
                              roomCode = None, isHost = False\<rparr>,
                ''p2'' \<mapsto> \<lparr>playerId = ''p2'', username = None, emoji = ''fox'',
                              roomCode = Some ''ABCD'', isHost = False\<rparr>],
     playerRoles = Map.empty, deadPlayers = [''ABCD'' \<mapsto> {''p1''}],
     drunkPlayers = [''ABCD'' \<mapsto> {''p1''}], playerOrder = [''ABCD'' \<mapsto> [''p2'', ''p1'']],
     chatMessages = Map.empty\<rparr>"

text \<open>The host stores an order that names \<open>p1\<close> twice.\<close>

definition exDupOrder :: state where
  "exDupOrder = snd (postPlayerOrder (Some ''h'') ''ABCD'' [''p1'', ''p1''] exState)"

text \<open>A room whose only member is its host.\<close>

definition exSolo :: state where
  "exSolo = \<lparr>rooms = [''ABCD'' \<mapsto> exRoom\<lparr>room_players := [''h''], selectedRoles := []\<rparr>],
     players = [''h'' \<mapsto> \<lparr>playerId = ''h'', username = None, emoji = ''cat'',
                              roomCode = Some ''ABCD'', isHost = True\<rparr>],
     playerRoles = Map.empty, deadPlayers = Map.empty, drunkPlayers = Map.empty,
     playerOrder = Map.empty, chatMessages = Map.empty\<rparr>"

section \<open>Reachable states are consistent\<close>

lemma updPlayer_fields [simp]:
  "rooms (updPlayer p f s) = rooms s"
  "playerRoles (updPlayer p f s) = playerRoles s"
  "deadPlayers (updPlayer p f s) = deadPlayers s"
  "drunkPlayers (updPlayer p f s) = drunkPlayers s"
  "playerOrder (updPlayer p f s) = playerOrder s"
  "chatMessages (updPlayer p f s) = chatMessages s"
  by (simp_all add: updPlayer_def split: option.splits)

lemma players_updPlayer [simp]:
  "players (updPlayer p f s) q = (if q = p then map_option f (players s p) else players s q)"
  by (simp add: updPlayer_def split: option.splits)

lemma rooms_leaveRoom:
  "rooms (leaveRoom p rc s) c =
     (if c \<noteq> rc then rooms s c
      else (case rooms s rc of None \<Rightarrow> None
            | Some room \<Rightarrow>
               let ps = filter (\<lambda>i. i \<noteq> p) (room_players room)
               in if ps = [] then None
                  else Some (room\<lparr>room_players := ps,
                              hostId := (if hostId room = p then ps ! 0 else hostId room)\<rparr>)))"
  by (simp add: leaveRoom_def Let_def split: option.splits)

lemma memberOf_leaveRoom:
  "q \<noteq> p \<Longrightarrow> memberOf (leaveRoom p rc s) q c = memberOf s q c"
  by (auto simp add: leaveRoom_def Let_def memberOf_def split: option.splits)

lemma roomsOk_leaveRoom:
  assumes "roomsOk s" "memberOf s p rc"
  shows "roomsOk (leaveRoom p rc s)"
  unfolding roomsOk_def
proof (intro allI impI)
  fix c r assume r: "rooms (leaveRoom p rc s) c = Some r"
  show "roomOk (leaveRoom p rc s) c r"
  proof (cases "c = rc")
    case False
    with r have r0: "rooms s c = Some r" by (simp add: rooms_leaveRoom)
    with assms(1) have ok: "roomOk s c r" by (simp add: roomsOk_def)
    have "p \<notin> set (room_players r)"
    proof
      assume "p \<in> set (room_players r)"
      with ok have "memberOf s p c" by (simp add: roomOk_def)
      with assms(2) False show False by (auto simp add: memberOf_def)
    qed
    then have "\<forall>q\<in>set (room_players r). q \<noteq> p" by auto
    with ok show ?thesis
      by (simp add: roomOk_def memberOf_leaveRoom)
  next
    case True
    from r True obtain room where room: "rooms s rc = Some room"
      by (auto simp add: rooms_leaveRoom split: option.splits)
    let ?ps = "filter (\<lambda>i. i \<noteq> p) (room_players room)"
    from r True room have ne: "?ps \<noteq> []"
      and req: "r = room\<lparr>room_players := ?ps, hostId := (if hostId room = p then ?ps ! 0 else hostId room)\<rparr>"
      by (auto simp add: rooms_leaveRoom Let_def split: if_splits)
    from assms(1) room have ok: "roomOk s rc room" by (simp add: roomsOk_def)
    have h: "hostId r \<in> set ?ps"
    proof (cases "hostId room = p")
      case True
      from ne have "0 < length ?ps" by simp
      then have "?ps ! 0 \<in> set ?ps" by (rule nth_mem)
      with True req show ?thesis by simp
    next
      case False
      with ok req show ?thesis by (simp add: roomOk_def)
    qed
    have m: "\<forall>q\<in>set ?ps. memberOf (leaveRoom p rc s) q rc"
      using ok by (auto simp add: roomOk_def memberOf_leaveRoom)
    from ok ne h m req True show ?thesis
      by (simp add: roomOk_def)
  qed
qed

lemma leaveRoom_other [simp]:
  "players (leaveRoom p rc s) [] = None \<longleftrightarrow> players s [] = None"
  "chatOk s \<Longrightarrow> chatOk (leaveRoom p rc s)"
  by (auto simp add: leaveRoom_def Let_def chatOk_def split: option.splits)

lemma consistent_leaveRoom:
  "consistent s \<Longrightarrow> memberOf s p rc \<Longrightarrow> consistent (leaveRoom p rc s)"
  by (simp add: consistent_def roomsOk_leaveRoom)

lemma consistent_leaveCurrent:
  "consistent s \<Longrightarrow> consistent (leaveCurrent p s)"
  by (auto simp add: leaveCurrent_def memberOf_def intro!: consistent_leaveRoom split: option.splits)

lemma inNoRoom_leaveCurrent:
  assumes "consistent s"
  shows "inNoRoom (leaveCurrent p s) p"
  unfolding inNoRoom_def
proof (intro allI impI)
  fix c r assume r: "rooms (leaveCurrent p s) c = Some r"
  show "p \<notin> set (room_players r)"
  proof (cases "\<exists>rc. memberOf s p rc \<and> rc \<noteq> [] \<and> rooms s rc \<noteq> None")
    case True
    then obtain rc where rc: "memberOf s p rc" "rc \<noteq> []" "rooms s rc \<noteq> None" by blast
    then have lc: "leaveCurrent p s = leaveRoom p rc s"
      by (auto simp add: leaveCurrent_def memberOf_def split: option.splits)
    show ?thesis
    proof (cases "c = rc")
      case True
      with r lc show ?thesis
        by (auto simp add: rooms_leaveRoom Let_def split: option.splits if_splits)
    next
      case False
      with r lc have r0: "rooms s c = Some r" by (simp add: rooms_leaveRoom)
      show ?thesis
      proof
        assume "p \<in> set (room_players r)"
        with r0 assms have "memberOf s p c" by (simp add: consistent_def roomsOk_def roomOk_def)
        with rc(1) False show False by (auto simp add: memberOf_def)
      qed
    qed
  next
    case False
    then have lc: "leaveCurrent p s = s"
      by (auto simp add: leaveCurrent_def memberOf_def split: option.splits)
    show ?thesis
    proof
      assume "p \<in> set (room_players r)"
      with r lc assms have "memberOf s p c \<and> c \<noteq> []"
        by (simp add: consistent_def roomsOk_def roomOk_def)
      with False r lc show False by auto
    qed
  qed
qed

lemma consistent_frame:
  assumes "consistent s"
    and "players s [] = None \<Longrightarrow> players s' [] = None"
    and "\<And>q c. memberOf s q c \<Longrightarrow> memberOf s' q c"
    and "\<And>c r'. rooms s' c = Some r' \<Longrightarrow>
           \<exists>r. rooms s c = Some r \<and> room_players r' = room_players r \<and> hostId r' = hostId r"
    and "chatOk s \<Longrightarrow> chatOk s'"
  shows "consistent s'"
  unfolding consistent_def roomsOk_def
proof (intro conjI allI impI)
  fix c r' assume "rooms s' c = Some r'"
  from assms(4)[OF this] obtain r where r: "rooms s c = Some r"
     "room_players r' = room_players r" "hostId r' = hostId r" by blast
  with assms(1) have "roomOk s c r" by (simp add: consistent_def roomsOk_def)
  with r assms(3) show "roomOk s' c r'" by (simp add: roomOk_def)
qed (use assms in \<open>simp_all add: consistent_def\<close>)

lemma consistent_updPlayer:
  assumes "consistent s" "\<And>pl. roomCode (f pl) = roomCode pl"
  shows "consistent (updPlayer p f s)"
  using assms(1)
proof (rule consistent_frame)
  show "players s [] = None \<Longrightarrow> players (updPlayer p f s) [] = None"
    by simp
  show "chatOk s \<Longrightarrow> chatOk (updPlayer p f s)" by (simp add: chatOk_def)
  show "\<And>q c. memberOf s q c \<Longrightarrow> memberOf (updPlayer p f s) q c"
    using assms(2) by (auto simp add: memberOf_def)
qed simp

lemma specialEmoji_roomCode [simp]: "roomCode (specialEmoji pl) = roomCode pl"
  by (simp add: specialEmoji_def Let_def)

lemma inNoRoom_updPlayer [simp]: "inNoRoom (updPlayer p f s) q = inNoRoom s q"
  by (simp add: inNoRoom_def)

lemma upperChar_letters: "ch \<in> set letters \<Longrightarrow> upperChar ch = ch"
  by (auto simp add: letters_def upperChar_def)

lemma letterAt_in: "letterAt i \<in> set letters"
  unfolding letterAt_def by (rule nth_mem) (simp add: letters_def)

lemma drawCode_ok: "drawCode d \<noteq> [] \<and> toUpperCase (drawCode d) = drawCode d"
  by (cases d) (simp add: toUpperCase_def upperChar_letters letterAt_in)

lemma generateRoomCode_Some:
  "generateRoomCode rs ds = Some rc \<Longrightarrow> rs rc = None \<and> rc \<noteq> [] \<and> toUpperCase rc = rc"
  by (induction ds) (auto simp add: drawCode_ok simp del: drawCode.simps split: if_splits)

lemma consistent_enter:
  assumes c: "consistent s" and n: "inNoRoom s p" and pl: "players s p = Some pl"
    and r: "roomOk s' rc r'"
    and rest: "\<And>c r. c \<noteq> rc \<Longrightarrow> rooms s' c = Some r \<Longrightarrow> rooms s c = Some r"
    and here: "rooms s' rc = Some r'"
    and pls: "\<And>q. q \<noteq> p \<Longrightarrow> players s' q = players s q"
    and ch: "chatMessages s' = chatMessages s"
  shows "consistent s'"
  unfolding consistent_def roomsOk_def
proof (intro conjI allI impI)
  from c pl have "p \<noteq> []" by (auto simp add: consistent_def)
  with pls[of "[]"] c show "players s' [] = None" by (simp add: consistent_def)
  from c ch show "chatOk s'" by (simp add: consistent_def chatOk_def)
  fix c' r0 assume a: "rooms s' c' = Some r0"
  show "roomOk s' c' r0"
  proof (cases "c' = rc")
    case True with a here r show ?thesis by simp
  next
    case False
    with a rest have r0: "rooms s c' = Some r0" by simp
    with c have ok: "roomOk s c' r0" by (simp add: consistent_def roomsOk_def)
    from n r0 have "\<forall>q\<in>set (room_players r0). q \<noteq> p" by (auto simp add: inNoRoom_def)
    with ok pls show ?thesis by (simp add: roomOk_def memberOf_def)
  qed
qed

lemma consistent_createRoom:
  assumes "consistent s" "createRoom ck draws now s = Some (res, s')"
  shows "consistent s'"
proof (cases "knownSession ck s")
  case None
  with assms show ?thesis by (simp add: createRoom_def)
next
  case (Some a)
  obtain p pl0 where a: "a = (p, pl0)" by (cases a)
  let ?s2 = "updPlayer p specialEmoji (leaveCurrent p s)"
  from assms(2) Some a obtain rc where rc: "generateRoomCode (rooms ?s2) draws = Some rc"
    by (auto simp add: createRoom_def Let_def split: option.splits)
  let ?room = "\<lparr>code = rc, hostId = p, room_players = [p], createdAt = now,
                 selectedRoles = [], rolesAssigned = False, roleSet = defaultRoleSet\<rparr>"
  from assms(2) Some a rc have s': "s' = updPlayer p (\<lambda>pl. pl\<lparr>roomCode := Some rc, isHost := True\<rparr>)
       (?s2\<lparr>rooms := (rooms ?s2)(rc \<mapsto> ?room)\<rparr>)"
    by (simp add: createRoom_def Let_def)
  have c2: "consistent ?s2"
    using assms(1) by (simp add: consistent_leaveCurrent consistent_updPlayer)
  have n2: "inNoRoom ?s2 p" using assms(1) by (simp add: inNoRoom_leaveCurrent)
  from Some a have "players s p \<noteq> None"
    by (auto simp add: knownSession_def split: option.splits if_splits)
  then have "players (leaveCurrent p s) p \<noteq> None"
    by (auto simp add: leaveCurrent_def leaveRoom_def Let_def split: option.splits)
  then obtain pl2 where pl2: "players ?s2 p = Some pl2" by auto
  from generateRoomCode_Some[OF rc] have g: "rooms ?s2 rc = None" "rc \<noteq> []" "toUpperCase rc = rc"
    by simp_all
  show ?thesis
  proof (rule consistent_enter[OF c2 n2 pl2, where rc = rc and r' = ?room])
    show "roomOk s' rc ?room" using g pl2 by (auto simp add: roomOk_def s' memberOf_def)
  qed (simp_all add: s')
qed

lemma consistent_joinRoom:
  assumes "consistent s" "joinRoom ck rawCode s = (res, s')"
  shows "consistent s'"
proof (cases "knownSession ck s")
  case None
  with assms show ?thesis by (simp add: joinRoom_def)
next
  case (Some a)
  obtain p pl0 where a: "a = (p, pl0)" by (cases a)
  let ?c = "toUpperCase rawCode"
  let ?s2 = "updPlayer p specialEmoji (leaveCurrent p s)"
  have c2: "consistent ?s2"
    using assms(1) by (simp add: consistent_leaveCurrent consistent_updPlayer)
  have n2: "inNoRoom ?s2 p" using assms(1) by (simp add: inNoRoom_leaveCurrent)
  from Some a have "players s p \<noteq> None"
    by (auto simp add: knownSession_def split: option.splits if_splits)
  then have "players (leaveCurrent p s) p \<noteq> None"
    by (auto simp add: leaveCurrent_def leaveRoom_def Let_def split: option.splits)
  then obtain pl2 where pl2: "players ?s2 p = Some pl2" by auto
  show ?thesis
  proof (cases "rooms s ?c = None \<or> rooms ?s2 ?c = None")
    case True
    with assms Some a c2 show ?thesis
      by (auto simp add: joinRoom_def Let_def split: if_splits)
  next
    case False
    then obtain room where room: "rooms ?s2 ?c = Some room" by auto
    let ?room = "if p \<in> set (room_players room) then room
                 else room\<lparr>room_players := room_players room @ [p]\<rparr>"
    from assms(2) Some a False room
    have s': "s' = updPlayer p (\<lambda>pl. pl\<lparr>roomCode := Some ?c, isHost := (hostId ?room = p)\<rparr>)
       (?s2\<lparr>rooms := (rooms ?s2)(?c \<mapsto> ?room)\<rparr>)"
      by (auto simp add: joinRoom_def Let_def split: if_splits)
    from c2 room have ok: "roomOk ?s2 ?c room" by (simp add: consistent_def roomsOk_def)
    from n2 room have notin: "p \<notin> set (room_players room)" by (simp add: inNoRoom_def)
    show ?thesis
    proof (rule consistent_enter[OF c2 n2 pl2, where rc = ?c and r' = ?room])
      show "roomOk s' ?c ?room" using ok notin pl2
        by (auto simp add: roomOk_def s' memberOf_def)
    qed (simp_all add: s')
  qed
qed

lemma knownSession_SomeD:
  "knownSession ck s = Some (p, pl) \<Longrightarrow> ck = Some p \<and> p \<noteq> [] \<and> players s p = Some pl"
  by (auto simp add: knownSession_def split: option.splits if_splits)

lemma consistent_getSession:
  "consistent s \<Longrightarrow> newId \<noteq> [] \<Longrightarrow> players s newId = None
    \<Longrightarrow> consistent (snd (getSession ck newId e s))"
  by (erule consistent_frame)
     (auto simp add: getSession_def Let_def chatOk_def memberOf_def
           split: option.splits if_splits)

lemma consistent_postUsername: "consistent s \<Longrightarrow> consistent (snd (postUsername ck u s))"
  by (erule consistent_frame)
     (auto simp add: postUsername_def Let_def chatOk_def memberOf_def
           dest!: knownSession_SomeD split: option.splits if_splits)

lemma consistent_postEmoji: "consistent s \<Longrightarrow> consistent (snd (postEmoji ck e s))"
  by (erule consistent_frame)
     (auto simp add: postEmoji_def Let_def chatOk_def memberOf_def
           dest!: knownSession_SomeD split: option.splits if_splits)

lemma consistent_postLeave: "consistent s \<Longrightarrow> consistent (snd (postLeave ck s))"
  by (auto simp add: postLeave_def consistent_leaveCurrent split: option.splits if_splits)

lemma consistent_postPlayerOrder:
  "consistent s \<Longrightarrow> consistent (snd (postPlayerOrder ck rc ord s))"
  by (erule consistent_frame)
     (auto simp add: postPlayerOrder_def Let_def chatOk_def memberOf_def
           split: option.splits if_splits)

lemma consistent_postRoleSet:
  "consistent s \<Longrightarrow> consistent (snd (postRoleSet rsets ck rc rset s))"
  by (erule consistent_frame)
     (auto simp add: postRoleSet_def Let_def chatOk_def memberOf_def
           split: option.splits if_splits)

lemma consistent_postSelectedRoles:
  "consistent s \<Longrightarrow> consistent (snd (postSelectedRoles rsets ck rc sel s))"
  by (erule consistent_frame)
     (auto simp add: postSelectedRoles_def Let_def chatOk_def memberOf_def
           split: option.splits if_splits)

lemma consistent_assignRoles:
  "consistent s \<Longrightarrow> consistent (snd (assignRoles ck rc f g s))"
  by (erule consistent_frame)
     (auto simp add: assignRoles_def Let_def chatOk_def memberOf_def
           split: option.splits if_splits)

lemma consistent_resetRoles:
  "consistent s \<Longrightarrow> consistent (snd (resetRoles ck rc s))"
  by (erule consistent_frame)
     (auto simp add: resetRoles_def Let_def chatOk_def memberOf_def
           split: option.splits if_splits)

lemma consistent_killPlayer:
  "consistent s \<Longrightarrow> consistent (snd (killPlayer ck rc t s))"
  by (erule consistent_frame)
     (auto simp add: killPlayer_def Let_def chatOk_def memberOf_def
           split: option.splits if_splits)

lemma consistent_revivePlayer:
  "consistent s \<Longrightarrow> consistent (snd (revivePlayer ck rc t s))"
  by (erule consistent_frame)
     (auto simp add: revivePlayer_def Let_def chatOk_def memberOf_def
           split: option.splits if_splits)

lemma consistent_markDrunk:
  "consistent s \<Longrightarrow> consistent (snd (markDrunk ck rc t s))"
  by (erule consistent_frame)
     (auto simp add: markDrunk_def Let_def chatOk_def memberOf_def
           split: option.splits if_splits)

lemma consistent_unmarkDrunk:
  "consistent s \<Longrightarrow> consistent (snd (unmarkDrunk ck rc t s))"
  by (erule consistent_frame)
     (auto simp add: unmarkDrunk_def Let_def chatOk_def memberOf_def
           split: option.splits if_splits)

lemma consistent_postChat:
  "consistent s \<Longrightarrow> consistent (snd (postChat ck rc body rcp now1 now2 s))"
  by (erule consistent_frame)
     (auto simp add: postChat_def Let_def chatOk_def memberOf_def truthy_def
           split: option.splits if_splits)

lemma consistent_init: "consistent initState"
  by (simp add: consistent_def initState_def roomsOk_def chatOk_def)

lemma consistent_step:
  assumes "consistent s" "envOk s req" "step rsets req s = Some s'"
  shows "consistent s'"
proof (cases req)
  case (PostCreate ck draws now)
  with assms(3) obtain res where "createRoom ck draws now s = Some (res, s')" by auto
  with assms(1) show ?thesis by (rule consistent_createRoom)
next
  case (PostJoin ck rc)
  with assms(3) have "joinRoom ck rc s = (fst (joinRoom ck rc s), s')" by auto
  with assms(1) show ?thesis by (rule consistent_joinRoom)
qed (use assms in \<open>auto simp add: consistent_getSession consistent_postUsername
      consistent_postEmoji consistent_postLeave consistent_postPlayerOrder consistent_postRoleSet
      consistent_postSelectedRoles consistent_assignRoles consistent_resetRoles
      consistent_killPlayer consistent_revivePlayer consistent_markDrunk consistent_unmarkDrunk
      consistent_postChat\<close>)

lemma reachable_consistent: "reachable rsets s \<Longrightarrow> consistent s"
  by (induction rule: reachable.induct) (auto intro: consistent_init consistent_step)

lemma run_reachable:
  "reachable rsets s \<Longrightarrow> run rsets reqs s = Some s' \<Longrightarrow> reachable rsets s'"
  by (induction reqs arbitrary: s)
     (auto split: if_splits option.splits intro: reachable_step)

lemmas eval_simps = knownSession_def updPlayer_def leaveRoom_def leaveCurrent_def
  specialEmoji_def toUpperCase_def toLowerCase_def upperChar_def lowerChar_def char_of_def bit_Suc_0_iff
  letterAt_def letters_def Let_def getSession_def createRoom_def joinRoom_def postLeave_def
  postSelectedRoles_def validCategories_def roles_def defaultRoleSet_def List.map_filter_def
  initState_def

lemma ex_run: "run exRoleSets exRequests initState = Some exState"
  by (simp add: exRequests_def exRoleSets_def exState_def exRoom_def exChef_def exImp_def eval_simps
        fun_eq_iff)

section \<open>The claims\<close>

lemma ex_reachable: "reachable exRoleSets exState"
  using run_reachable [OF reachable_init ex_run] .

text \<open>
  C4. In every reachable state, every room of the registry that has at least one member has a
  host that is one of its members.
\<close>

theorem host_is_member:
  "reachable rsets s \<Longrightarrow> rooms s c = Some room \<Longrightarrow> room_players room \<noteq> []
     \<Longrightarrow> hostId room \<in> set (room_players room)"
  by (drule reachable_consistent) (simp add: consistent_def roomsOk_def roomOk_def)

theorem host_is_member_witness:
  "reachable exRoleSets exState \<and> rooms exState ''ABCD'' = Some exRoom
     \<and> room_players exRoom \<noteq> [] \<and> hostId exRoom \<in> set (room_players exRoom)"
proof -
  have r: "rooms exState ''ABCD'' = Some exRoom" by (simp add: exState_def)
  have n: "room_players exRoom \<noteq> []" by (simp add: exRoom_def)
  from host_is_member [OF ex_reachable r n] ex_reachable r n show ?thesis by simp
qed

text \<open>
  C2. When the host asks for an assignment, some roles are selected and the number of members
  other than the host differs from the number of selected roles, the handler answers 400 with
  a message that states both counts, and no table changes: every player keeps the role it had.
\<close>

theorem assign_count_mismatch:
  assumes "knownSession ck s = Some (p, pl)"
    and "rooms s (toUpperCase rawCode) = Some room"
    and "hostId room = p"
    and "selectedRoles room \<noteq> []"
    and "length (filter (\<lambda>i. i \<noteq> hostId room) (room_players room)) \<noteq> length (selectedRoles room)"
  shows "assignRoles ck rawCode shufflePlayers shuffleRoles s =
           (Inl (Error 400 (''Role count must match player count. You have ''
                  @ showNat (length (filter (\<lambda>i. i \<noteq> hostId room) (room_players room)))
                  @ '' players but '' @ showNat (length (selectedRoles room))
                  @ '' roles selected.'')), s)"
  using assms by (simp add: assignRoles_def countMismatch_def Let_def)

theorem assign_count_mismatch_witness:
  "assignRoles (Some ''h'') ''abcd'' rev rev exMismatch =
     (Inl (Error 400
        ''Role count must match player count. You have 2 players but 3 roles selected.''),
      exMismatch)
   \<and> playerRoles exMismatch ''p1'' = Some exImp"
proof -
  let ?room = "exRoom\<lparr>selectedRoles := [exChef, exImp, exChef]\<rparr>"
  have k: "knownSession (Some ''h'') exMismatch = Some (''h'', \<lparr>playerId = ''h'', username = None,
             emoji = ''cat'', roomCode = Some ''ABCD'', isHost = True\<rparr>)"
    by (simp add: knownSession_def exMismatch_def exState_def)
  have r: "rooms exMismatch (toUpperCase ''abcd'') = Some ?room"
    by (simp add: exMismatch_def toUpperCase_def upperChar_def char_of_def bit_Suc_0_iff)
  have h: "hostId ?room = ''h''" by (simp add: exRoom_def)
  have n: "selectedRoles ?room \<noteq> []" by simp
  have l: "length (filter (\<lambda>i. i \<noteq> hostId ?room) (room_players ?room)) \<noteq> length (selectedRoles ?room)"
    by (simp add: exRoom_def)
  have s2: "showNat (Suc (Suc 0)) = ''2''" and s3: "showNat (Suc (Suc (Suc 0))) = ''3''"
    by code_simp+
  from assign_count_mismatch [OF k r h n l, of rev rev] show ?thesis
    by (simp add: exRoom_def s2 s3 exMismatch_def)
qed

lemma upper_ABCD: "toUpperCase ''ABCD'' = ''ABCD''" "toUpperCase ''abcd'' = ''ABCD''"
  by (simp_all add: toUpperCase_def upperChar_def char_of_def bit_Suc_0_iff)

lemma showNat_digits: "showNat 5 = ''5''" "showNat 6 = ''6''" "showNat 7 = ''7''"
  by code_simp+

lemma ex_chat_run: "run exRoleSets exChatRequests exState = Some exChatState"
  by (simp add: exChatRequests_def exChatState_def exMessages_def exMsg_def exState_def
        exRoom_def postChat_def knownSession_def upper_ABCD showNat_digits truthy_def trim_def
        isSpace_def Let_def)

lemma ex_chat_reachable: "reachable exRoleSets exChatState"
  using run_reachable [OF ex_reachable ex_chat_run] .

lemma chatMessages_leaveRoom:
  "chatMessages (leaveRoom p rc s) c = None \<or> chatMessages (leaveRoom p rc s) c = chatMessages s c"
  by (simp add: leaveRoom_def Let_def split: option.splits)

lemma chatMessages_leaveCurrent:
  "chatMessages (leaveCurrent p s) c = None
     \<or> chatMessages (leaveCurrent p s) c = chatMessages s c"
  using chatMessages_leaveRoom [of p _ s c]
  by (simp add: leaveCurrent_def split: option.splits)

lemma chatMessages_createRoom:
  assumes "createRoom ck draws now s = Some (res, s')"
  shows "chatMessages s' c = None \<or> chatMessages s' c = chatMessages s c"
proof (cases "knownSession ck s")
  case None
  with assms show ?thesis by (simp add: createRoom_def)
next
  case (Some a)
  obtain p pl where a: "a = (p, pl)" by (cases a)
  from assms Some a have "chatMessages s' = chatMessages (leaveCurrent p s)"
    by (auto simp add: createRoom_def Let_def split: option.splits)
  with chatMessages_leaveCurrent [of p s c] show ?thesis by simp
qed

lemma chatMessages_joinRoom:
  "chatMessages (snd (joinRoom ck rawCode s)) c = None
     \<or> chatMessages (snd (joinRoom ck rawCode s)) c = chatMessages s c"
proof (cases "knownSession ck s")
  case None
  then show ?thesis by (simp add: joinRoom_def)
next
  case (Some a)
  obtain p pl where a: "a = (p, pl)" by (cases a)
  from Some a have "chatMessages (snd (joinRoom ck rawCode s)) = chatMessages (leaveCurrent p s)
      \<or> chatMessages (snd (joinRoom ck rawCode s)) = chatMessages s"
    by (auto simp add: joinRoom_def Let_def split: option.splits)
  with chatMessages_leaveCurrent [of p s c] show ?thesis by auto
qed

lemma chatMessages_postLeave:
  "chatMessages (snd (postLeave ck s)) c = None
     \<or> chatMessages (snd (postLeave ck s)) c = chatMessages s c"
proof (cases "knownSession ck s")
  case None
  then show ?thesis by (simp add: postLeave_def)
next
  case (Some a)
  obtain p pl where a: "a = (p, pl)" by (cases a)
  from Some a have "snd (postLeave ck s) = leaveCurrent p s" by (simp add: postLeave_def)
  with chatMessages_leaveCurrent [of p s c] show ?thesis by simp
qed

lemma postChat_appends:
  assumes "postChat ck rc body rcp now1 now2 s = (Inr m, s')"
  shows "s' = s\<lparr>chatMessages := (chatMessages s)(toUpperCase rc \<mapsto>
                 (case chatMessages s (toUpperCase rc) of None \<Rightarrow> [] | Some ms \<Rightarrow> ms) @ [m])\<rparr>
         \<and> recipientId m \<noteq> Some []"
  using assms
  by (auto simp add: postChat_def Let_def truthy_def split: option.splits if_splits)

lemma chatMessages_postChat:
  "chatMessages (snd (postChat ck rc body rcp now1 now2 s)) c = chatMessages s c
   \<or> (\<exists>m. chatMessages (snd (postChat ck rc body rcp now1 now2 s)) c
            = Some ((case chatMessages s c of None \<Rightarrow> [] | Some ms \<Rightarrow> ms) @ [m]))"
proof (cases "postChat ck rc body rcp now1 now2 s")
  case (Pair res s')
  show ?thesis
  proof (cases res)
    case (Inl e)
    with Pair have "s' = s"
      by (auto simp add: postChat_def Let_def split: option.splits if_splits)
    with Pair show ?thesis by simp
  next
    case (Inr m)
    with Pair postChat_appends [of ck rc body rcp now1 now2 s m s']
    show ?thesis by (cases "c = toUpperCase rc") auto
  qed
qed

lemma step_unchanged_or_error:
  assumes "step rsets req s = Some s'"
    and "\<forall>ck rc body rcp now1 now2. req \<noteq> PostChat ck rc body rcp now1 now2"
  shows "chatMessages s' c = None \<or> chatMessages s' c = chatMessages s c"
proof (cases req)
  case (PostCreate ck draws now)
  with assms obtain res where "createRoom ck draws now s = Some (res, s')" by auto
  from chatMessages_createRoom [OF this] show ?thesis .
next
  case (PostJoin ck rc)
  with assms chatMessages_joinRoom [of ck rc s c] show ?thesis by auto
next
  case (PostLeave ck)
  with assms chatMessages_postLeave [of ck s c] show ?thesis by auto
next
  case (PostChat ck rc body rcp now1 now2)
  with assms(2) show ?thesis by simp
next
  case (GetSession ck newId e)
  with assms show ?thesis by (auto simp add: getSession_def Let_def split: option.splits)
next
  case (PostUsername ck u)
  with assms show ?thesis by (auto simp add: postUsername_def Let_def split: option.splits)
next
  case (PostEmoji ck e)
  with assms show ?thesis
    by (auto simp add: postEmoji_def Let_def split: option.splits if_splits)
next
  case (PostPlayerOrder ck rc ord)
  with assms show ?thesis
    by (auto simp add: postPlayerOrder_def Let_def split: option.splits if_splits)
next
  case (PostRoleSet ck rc rset)
  with assms show ?thesis
    by (auto simp add: postRoleSet_def Let_def split: option.splits if_splits)
next
  case (PostSelectedRoles ck rc sel)
  with assms show ?thesis
    by (auto simp add: postSelectedRoles_def Let_def split: option.splits if_splits)
next
  case (PostAssignRoles ck rc f g)
  with assms show ?thesis
    by (auto simp add: assignRoles_def Let_def split: option.splits if_splits)
next
  case (PostResetRoles ck rc)
  with assms show ?thesis
    by (auto simp add: resetRoles_def Let_def split: option.splits if_splits)
next
  case (PostKillPlayer ck rc t)
  with assms show ?thesis
    by (auto simp add: killPlayer_def Let_def split: option.splits if_splits)
next
  case (PostRevivePlayer ck rc t)
  with assms show ?thesis
    by (auto simp add: revivePlayer_def Let_def split: option.splits if_splits)
next
  case (PostMarkDrunk ck rc t)
  with assms show ?thesis
    by (auto simp add: markDrunk_def Let_def split: option.splits if_splits)
next
  case (PostUnmarkDrunk ck rc t)
  with assms show ?thesis
    by (auto simp add: unmarkDrunk_def Let_def split: option.splits if_splits)
qed

lemma postChat_error_unchanged:
  "postChat ck rc body rcp now1 now2 s = (Inl e, s') \<Longrightarrow> s' = s"
  by (auto simp add: postChat_def Let_def split: option.splits if_splits)

lemma getChat_filter:
  assumes "knownSession ck s = Some (viewer, pl)"
    and "rooms s (toUpperCase rawCode) = Some room"
    and "viewer \<in> set (room_players room)"
  shows "getChat ck rawCode s = Inr (filter (visibleTo viewer)
           (case chatMessages s (toUpperCase rawCode) of None \<Rightarrow> [] | Some ms \<Rightarrow> ms))"
  using assms by (simp add: getChat_def Let_def)

lemma visibleTo_iff:
  "recipientId m \<noteq> Some [] \<Longrightarrow>
     visibleTo viewer m \<longleftrightarrow> (recipientId m = None \<or> recipientId m = Some viewer \<or> senderId m = viewer)"
  by (auto simp add: visibleTo_def truthy_def split: option.splits)

text \<open>
  C8. A member of the room who asks for the chat history gets it, and the list holds every
  broadcast message (recipient \<open>null\<close>) in the order of sending, holds no directed message of
  which the viewer is neither sender nor recipient, and holds every directed message of which
  the viewer is sender or recipient: it is the stored list filtered by that rule. The stored
  list is in the order of sending: a send that succeeds puts its message at the end of the
  room's list, so that the viewer's history after it is the history before it followed by the
  new message when the rule admits it; no other request adds to the list or reorders it (a
  reset, or a leave that empties the room, drops it).
\<close>

theorem chat_history_visibility:
  assumes "reachable rsets s"
    and "knownSession ck s = Some (viewer, pl)"
    and "rooms s (toUpperCase rawCode) = Some room"
    and "viewer \<in> set (room_players room)"
    and "allMessages = (case chatMessages s (toUpperCase rawCode) of None \<Rightarrow> [] | Some ms \<Rightarrow> ms)"
  shows "\<exists>msgs. getChat ck rawCode s = Inr msgs
     \<and> filter (\<lambda>m. recipientId m = None) msgs = filter (\<lambda>m. recipientId m = None) allMessages
     \<and> (\<forall>m\<in>set msgs. recipientId m \<noteq> None \<longrightarrow> recipientId m = Some viewer \<or> senderId m = viewer)
     \<and> (\<forall>m\<in>set allMessages. recipientId m = Some viewer \<or> senderId m = viewer \<longrightarrow> m \<in> set msgs)
     \<and> msgs = filter (\<lambda>m. recipientId m = None \<or> recipientId m = Some viewer \<or> senderId m = viewer)
                allMessages
     \<and> (\<forall>ck' rc' body rcp now1 now2 m s'.
           toUpperCase rc' = toUpperCase rawCode
           \<and> postChat ck' rc' body rcp now1 now2 s = (Inr m, s') \<longrightarrow>
             chatMessages s' (toUpperCase rawCode) = Some (allMessages @ [m])
             \<and> getChat ck rawCode s' =
                 Inr (msgs @ (if recipientId m = None \<or> recipientId m = Some viewer
                                 \<or> senderId m = viewer then [m] else [])))
     \<and> (\<forall>req s'. step rsets req s = Some s' \<longrightarrow>
           chatMessages s' (toUpperCase rawCode) = None
           \<or> chatMessages s' (toUpperCase rawCode) = chatMessages s (toUpperCase rawCode)
           \<or> (\<exists>ck' rc' body rcp now1 now2 m.
                 req = PostChat ck' rc' body rcp now1 now2
                 \<and> postChat ck' rc' body rcp now1 now2 s = (Inr m, s')
                 \<and> chatMessages s' (toUpperCase rawCode) = Some (allMessages @ [m])))"
proof -
  let ?c = "toUpperCase rawCode"
  let ?rule = "\<lambda>m. recipientId m = None \<or> recipientId m = Some viewer \<or> senderId m = viewer"
  from assms(1) have "chatOk s" by (simp add: reachable_consistent [unfolded consistent_def])
  with assms(5) have ok: "\<forall>m\<in>set allMessages. recipientId m \<noteq> Some []"
    by (auto simp add: chatOk_def split: option.splits)
  have g: "getChat ck rawCode s = Inr (filter (visibleTo viewer) allMessages)"
    unfolding assms(5) by (rule getChat_filter [OF assms(2-4)])
  have f: "filter (visibleTo viewer) allMessages = filter ?rule allMessages"
    by (rule filter_cong [OF refl]) (use ok in \<open>simp add: visibleTo_iff\<close>)
  have send: "\<forall>ck' rc' body rcp now1 now2 m s'.
           toUpperCase rc' = ?c \<and> postChat ck' rc' body rcp now1 now2 s = (Inr m, s') \<longrightarrow>
             chatMessages s' ?c = Some (allMessages @ [m])
             \<and> getChat ck rawCode s' =
                 Inr (filter ?rule allMessages @ (if ?rule m then [m] else []))"
  proof (intro allI impI)
    fix ck' rc' body rcp now1 now2 m s'
    assume a: "toUpperCase rc' = ?c \<and> postChat ck' rc' body rcp now1 now2 s = (Inr m, s')"
    from postChat_appends [of ck' rc' body rcp now1 now2 s m s'] a assms(5)
    have s': "s' = s\<lparr>chatMessages := (chatMessages s)(?c \<mapsto> allMessages @ [m])\<rparr>"
      and r: "recipientId m \<noteq> Some []" by simp_all
    from s' have st: "chatMessages s' ?c = Some (allMessages @ [m])" by simp
    from s' have "knownSession ck s' = knownSession ck s"
      by (simp add: knownSession_def split: option.splits)
    with assms(2) have k': "knownSession ck s' = Some (viewer, pl)" by simp
    from s' assms(3) have r': "rooms s' ?c = Some room" by simp
    from getChat_filter [OF k' r' assms(4)] st
    have "getChat ck rawCode s' = Inr (filter (visibleTo viewer) (allMessages @ [m]))" by simp
    also have "filter (visibleTo viewer) (allMessages @ [m])
        = filter ?rule allMessages @ (if ?rule m then [m] else [])"
      using f r by (simp add: visibleTo_iff)
    finally show "chatMessages s' ?c = Some (allMessages @ [m])
             \<and> getChat ck rawCode s' =
                 Inr (filter ?rule allMessages @ (if ?rule m then [m] else []))"
      using st by simp
  qed
  have frame: "\<forall>req s'. step rsets req s = Some s' \<longrightarrow>
           chatMessages s' ?c = None \<or> chatMessages s' ?c = chatMessages s ?c
           \<or> (\<exists>ck' rc' body rcp now1 now2 m.
                 req = PostChat ck' rc' body rcp now1 now2
                 \<and> postChat ck' rc' body rcp now1 now2 s = (Inr m, s')
                 \<and> chatMessages s' ?c = Some (allMessages @ [m]))"
  proof (intro allI impI)
    fix req s' assume st: "step rsets req s = Some s'"
    show "chatMessages s' ?c = None \<or> chatMessages s' ?c = chatMessages s ?c
           \<or> (\<exists>ck' rc' body rcp now1 now2 m.
                 req = PostChat ck' rc' body rcp now1 now2
                 \<and> postChat ck' rc' body rcp now1 now2 s = (Inr m, s')
                 \<and> chatMessages s' ?c = Some (allMessages @ [m]))"
    proof (cases "\<exists>ck' rc' body rcp now1 now2. req = PostChat ck' rc' body rcp now1 now2")
      case False
      with step_unchanged_or_error [OF st, of ?c] show ?thesis by simp
    next
      case True
      then obtain ck' rc' body rcp now1 now2
        where req: "req = PostChat ck' rc' body rcp now1 now2" by blast
      with st have pc: "postChat ck' rc' body rcp now1 now2 s
          = (fst (postChat ck' rc' body rcp now1 now2 s), s')" by auto
      show ?thesis
      proof (cases "fst (postChat ck' rc' body rcp now1 now2 s)")
        case (Inl e)
        with pc postChat_error_unchanged [of ck' rc' body rcp now1 now2 s e s']
        show ?thesis by simp
      next
        case (Inr m)
        with pc have pm: "postChat ck' rc' body rcp now1 now2 s = (Inr m, s')" by simp
        show ?thesis
        proof (cases "toUpperCase rc' = ?c")
          case True
          with send pm have "chatMessages s' ?c = Some (allMessages @ [m])" by blast
          with req pm show ?thesis by blast
        next
          case False
          with postChat_appends [OF pm] have "chatMessages s' ?c = chatMessages s ?c" by simp
          then show ?thesis by simp
        qed
      qed
    qed
  qed
  have b1: "filter (\<lambda>m. recipientId m = None) (filter ?rule allMessages)
      = filter (\<lambda>m. recipientId m = None) allMessages"
    by (auto intro: filter_cong)
  have b2: "\<forall>m\<in>set (filter ?rule allMessages).
      recipientId m \<noteq> None \<longrightarrow> recipientId m = Some viewer \<or> senderId m = viewer"
    by auto
  have b3: "\<forall>m\<in>set allMessages.
      recipientId m = Some viewer \<or> senderId m = viewer \<longrightarrow> m \<in> set (filter ?rule allMessages)"
    by auto
  show ?thesis
    by (rule exI [of _ "filter ?rule allMessages"])
       (intro conjI g [unfolded f] b1 b2 b3 refl send frame)
qed

theorem chat_history_visibility_witness:
  "reachable exRoleSets exChatState
   \<and> getChat (Some ''p1'') ''abcd'' exChatState =
       Inr [exMsg ''5'' ''h'' ''cat'' True None ''hello all'' 5,
            exMsg ''6'' ''h'' ''cat'' True (Some ''p1'') ''psst'' 6]
   \<and> toUpperCase ''ABCD'' = toUpperCase ''abcd''
   \<and> step exRoleSets (PostChat (Some ''h'') ''ABCD'' (Some ''bye'') None 8 8) exChatState
       = Some (exChatState\<lparr>chatMessages := [''ABCD'' \<mapsto>
            exMessages @ [exMsg ''8'' ''h'' ''cat'' True None ''bye'' 8]]\<rparr>)
   \<and> getChat (Some ''p1'') ''abcd'' (exChatState\<lparr>chatMessages := [''ABCD'' \<mapsto>
            exMessages @ [exMsg ''8'' ''h'' ''cat'' True None ''bye'' 8]]\<rparr>) =
       Inr [exMsg ''5'' ''h'' ''cat'' True None ''hello all'' 5,
            exMsg ''6'' ''h'' ''cat'' True (Some ''p1'') ''psst'' 6,
            exMsg ''8'' ''h'' ''cat'' True None ''bye'' 8]"
proof -
  let ?m8 = "exMsg ''8'' ''h'' ''cat'' True None ''bye'' 8"
  let ?s8 = "exChatState\<lparr>chatMessages := [''ABCD'' \<mapsto> exMessages @ [?m8]]\<rparr>"
  have k: "knownSession (Some ''p1'') exChatState = Some (''p1'', \<lparr>playerId = ''p1'',
       username = None, emoji = ''dog'', roomCode = Some ''ABCD'', isHost = False\<rparr>)"
    by (simp add: knownSession_def exChatState_def exState_def)
  have r: "rooms exChatState (toUpperCase ''abcd'') = Some exRoom"
    by (simp add: upper_ABCD exChatState_def exState_def)
  have m: "''p1'' \<in> set (room_players exRoom)" by (simp add: exRoom_def)
  have a: "exMessages = (case chatMessages exChatState (toUpperCase ''abcd'') of
                           None \<Rightarrow> [] | Some ms \<Rightarrow> ms)"
    by (simp add: upper_ABCD exChatState_def)
  have u: "toUpperCase ''ABCD'' = toUpperCase ''abcd''" by (simp add: upper_ABCD)
  have s8: "showNat 8 = ''8''" by code_simp
  have pc: "postChat (Some ''h'') ''ABCD'' (Some ''bye'') None 8 8 exChatState = (Inr ?m8, ?s8)"
    by (simp add: exChatState_def exMsg_def exState_def exRoom_def postChat_def
          knownSession_def upper_ABCD s8 truthy_def trim_def isSpace_def Let_def)
  from chat_history_visibility [OF ex_chat_reachable k r m a]
  obtain msgs where g: "getChat (Some ''p1'') ''abcd'' exChatState = Inr msgs"
    and f: "msgs = filter (\<lambda>m. recipientId m = None \<or> recipientId m = Some ''p1''
                               \<or> senderId m = ''p1'') exMessages"
    and send: "\<forall>ck' rc' body rcp now1 now2 m s'.
           toUpperCase rc' = toUpperCase ''abcd''
           \<and> postChat ck' rc' body rcp now1 now2 exChatState = (Inr m, s') \<longrightarrow>
             chatMessages s' (toUpperCase ''abcd'') = Some (exMessages @ [m])
             \<and> getChat (Some ''p1'') ''abcd'' s' =
                 Inr (msgs @ (if recipientId m = None \<or> recipientId m = Some ''p1''
                                 \<or> senderId m = ''p1'' then [m] else []))"
    by (elim exE conjE)
  from f have ms: "msgs = [exMsg ''5'' ''h'' ''cat'' True None ''hello all'' 5,
                          exMsg ''6'' ''h'' ''cat'' True (Some ''p1'') ''psst'' 6]"
    by (simp add: exMessages_def exMsg_def)
  from send [rule_format, OF conjI [OF u pc]]
  have g8: "getChat (Some ''p1'') ''abcd'' ?s8 =
       Inr [exMsg ''5'' ''h'' ''cat'' True None ''hello all'' 5,
            exMsg ''6'' ''h'' ''cat'' True (Some ''p1'') ''psst'' 6, ?m8]"
    by (simp add: ms exMsg_def)
  have st: "step exRoleSets (PostChat (Some ''h'') ''ABCD'' (Some ''bye'') None 8 8) exChatState
       = Some ?s8"
    by (simp add: pc)
  show ?thesis
    by (intro conjI ex_chat_reachable g [unfolded ms] u st g8)
qed

lemma decimalValue_showNat: "decimalValue (showNat n) = n"
proof (induction n rule: showNat.induct)
  case (1 n)
  show ?case
  proof (cases "n < 10")
    case True
    then show ?thesis
      by (subst showNat.simps) (simp add: decimalValue_def digit_def)
  next
    case False
    with 1 have ih: "decimalValue (showNat (n div 10)) = n div 10" by simp
    have "decimalValue (showNat n)
        = decimalValue (showNat (n div 10)) * 10 + (of_char (digit (n mod 10)) - 48)"
      using False by (subst showNat.simps) (simp add: decimalValue_def)
    also have "(of_char (digit (n mod 10)) :: nat) - 48 = n mod 10"
      by (simp add: digit_def)
    finally show ?thesis using ih by simp
  qed
qed

lemma showNat_inj: "showNat a = showNat b \<longleftrightarrow> a = b"
  by (metis decimalValue_showNat)

lemma postChat_id:
  "postChat ck rc body rcp t u s = (Inr m, s1) \<Longrightarrow> msg_id m = showNat t"
  by (auto simp add: postChat_def Let_def split: option.splits if_splits)

text \<open>
  C9 (as amended). The id of a chat message is the decimal string of the clock reading taken
  when it is created. Two messages have the same id exactly when they were created at the same
  clock reading, and the ids, read as numbers, are ordered as the clock readings are.
\<close>

theorem chat_id_is_clock:
  assumes "postChat ck rc body rcp t u s = (Inr m, s1)"
    and "postChat ck' rc' body' rcp' t' u' s' = (Inr m', s2)"
  shows "msg_id m = showNat t \<and> decimalValue (msg_id m) = t
     \<and> (msg_id m = msg_id m' \<longleftrightarrow> t = t')
     \<and> (decimalValue (msg_id m) \<le> decimalValue (msg_id m') \<longleftrightarrow> t \<le> t')"
  using postChat_id [OF assms(1)] postChat_id [OF assms(2)]
  by (simp add: decimalValue_showNat showNat_inj)

lemma ex_same_clock_eval:
  "exSameClock1 = (Inr (exMsg ''5'' ''h'' ''cat'' True None ''first'' 5),
                   exState\<lparr>chatMessages := [''ABCD'' \<mapsto> [exMsg ''5'' ''h'' ''cat'' True None ''first'' 5]]\<rparr>)"
  "exSameClock2 = (Inr (exMsg ''5'' ''p2'' ''fox'' False (Some ''h'') ''second'' 5),
                   exState\<lparr>chatMessages := [''ABCD'' \<mapsto>
                      [exMsg ''5'' ''h'' ''cat'' True None ''first'' 5,
                       exMsg ''5'' ''p2'' ''fox'' False (Some ''h'') ''second'' 5]]\<rparr>)"
  by (simp_all add: exSameClock1_def exSameClock2_def exMsg_def exState_def
        exRoom_def postChat_def knownSession_def upper_ABCD showNat_digits truthy_def trim_def
        isSpace_def Let_def)

theorem chat_id_is_clock_witness:
  "msg_id (exMsg ''5'' ''h'' ''cat'' True None ''first'' 5) = showNat 5
   \<and> decimalValue ''5'' = 5
   \<and> msg_id (exMsg ''5'' ''h'' ''cat'' True None ''first'' 5)
       = msg_id (exMsg ''5'' ''p2'' ''fox'' False (Some ''h'') ''second'' 5)"
  using chat_id_is_clock [OF ex_same_clock_eval(1) [unfolded exSameClock1_def]
          ex_same_clock_eval(2) [unfolded exSameClock2_def]]
  by (simp add: exMsg_def showNat_digits)

text \<open>
  C9 as stated fails: ids are not unique. Two messages sent to the example room at the same
  clock reading, by different senders and with different contents, both get the id \<open>5\<close>.
\<close>

theorem chat_id_counterexample:
  "map_sum id msg_id (fst exSameClock1) = Inr ''5''
   \<and> map_sum id msg_id (fst exSameClock2) = Inr ''5''
   \<and> fst exSameClock1 \<noteq> fst exSameClock2
   \<and> map_option (map msg_id) (chatMessages (snd exSameClock2) ''ABCD'') = Some [''5'', ''5'']"
  by (simp add: ex_same_clock_eval exMsg_def)

lemma leaveRoom_emoji:
  "map_option emoji (players (leaveRoom p rc s) q) = map_option emoji (players s q)"
  "map_option username (players (leaveRoom p rc s) q) = map_option username (players s q)"
  by (auto simp add: leaveRoom_def Let_def option.map_comp comp_def split: option.splits)

lemma leaveCurrent_emoji:
  "map_option emoji (players (leaveCurrent p s) q) = map_option emoji (players s q)"
  "map_option username (players (leaveCurrent p s) q) = map_option username (players s q)"
  by (auto simp add: leaveCurrent_def leaveRoom_emoji split: option.splits)

lemma rooms_leaveCurrent_None: "rooms s c = None \<Longrightarrow> rooms (leaveCurrent p s) c = None"
  by (auto simp add: leaveCurrent_def rooms_leaveRoom Let_def split: option.splits)

lemma generateRoomCode_total:
  "d \<in> set ds \<Longrightarrow> rs (drawCode d) = None \<Longrightarrow> \<exists>rc. generateRoomCode rs ds = Some rc"
  by (induction ds) (auto simp del: drawCode.simps)

lemma specialEmoji_after_leave:
  assumes "players s p = Some pl"
  shows "map_option emoji (players (updPlayer p specialEmoji (leaveCurrent p s)) p)
     = Some (let lowerUsername = toLowerCase (case username pl of None \<Rightarrow> [] | Some u \<Rightarrow> u)
             in if lowerUsername = ''luc'' \<or> lowerUsername = ''lucas'' then pooEmoji else emoji pl)"
proof -
  from leaveCurrent_emoji [of p s p] assms
  obtain pl1 where pl1: "players (leaveCurrent p s) p = Some pl1"
    "emoji pl1 = emoji pl" "username pl1 = username pl"
    by (cases "players (leaveCurrent p s) p") auto
  then show ?thesis by (simp add: specialEmoji_def Let_def)
qed

lemma createRoom_emoji:
  assumes "knownSession ck s = Some (p, pl)" "createRoom ck draws now s = Some (res, s')"
  shows "map_option emoji (players s' p)
       = map_option emoji (players (updPlayer p specialEmoji (leaveCurrent p s)) p)"
  using assms
  by (auto simp add: createRoom_def Let_def option.map_comp comp_def split: option.splits)

lemma joinRoom_emoji:
  assumes "knownSession ck s = Some (p, pl)" "rooms s (toUpperCase rawCode) \<noteq> None"
  shows "map_option emoji (players (snd (joinRoom ck rawCode s)) p)
       = map_option emoji (players (updPlayer p specialEmoji (leaveCurrent p s)) p)"
  using assms
  by (auto simp add: joinRoom_def Let_def option.map_comp comp_def split: option.splits)

text \<open>
  C10. Create and join give the avatar U+1F4A9 to a player whose username, in lower case, is
  \<open>luc\<close> or \<open>lucas\<close>, and leave the avatar of a player with another username, or none, as it
  was. For a known session: a create request returns as soon as one of its draws is a free
  code, and whenever it returns the player's avatar is the expected one; a join request for a
  room of the registry leaves the player with the expected avatar, whatever it answers.
\<close>

theorem special_emoji:
  assumes "knownSession ck s = Some (p, pl)"
    and "lowerUsername = toLowerCase (case username pl of None \<Rightarrow> [] | Some u \<Rightarrow> u)"
    and "expected = (if lowerUsername = ''luc'' \<or> lowerUsername = ''lucas''
                     then pooEmoji else emoji pl)"
  shows "(d \<in> set draws \<and> rooms s (drawCode d) = None
            \<longrightarrow> (\<exists>res s'. createRoom ck draws now s = Some (res, s')))
     \<and> (\<forall>res s'. createRoom ck draws now s = Some (res, s')
            \<longrightarrow> map_option emoji (players s' p) = Some expected)
     \<and> (rooms s (toUpperCase rawCode) \<noteq> None
            \<longrightarrow> map_option emoji (players (snd (joinRoom ck rawCode s)) p) = Some expected)"
proof (intro conjI impI allI)
  from assms(1) have pl: "players s p = Some pl" by (simp add: knownSession_SomeD)
  note e = specialEmoji_after_leave [OF pl, unfolded Let_def, folded assms(2), folded assms(3)]
  {
    assume "d \<in> set draws \<and> rooms s (drawCode d) = None"
    then have a: "d \<in> set draws"
      and b: "rooms (updPlayer p specialEmoji (leaveCurrent p s)) (drawCode d) = None"
      by (simp_all add: rooms_leaveCurrent_None)
    from generateRoomCode_total
           [of d draws "rooms (updPlayer p specialEmoji (leaveCurrent p s))", OF a b] assms(1)
    show "\<exists>res s'. createRoom ck draws now s = Some (res, s')"
      by (auto simp add: createRoom_def Let_def)
  }
  {
    fix res s' assume "createRoom ck draws now s = Some (res, s')"
    from createRoom_emoji [OF assms(1) this] e
    show "map_option emoji (players s' p) = Some expected" by simp
  }
  {
    assume "rooms s (toUpperCase rawCode) \<noteq> None"
    from joinRoom_emoji [OF assms(1) this] e
    show "map_option emoji (players (snd (joinRoom ck rawCode s)) p) = Some expected" by simp
  }
qed

lemma lower_Luc: "toLowerCase ''Luc'' = ''luc''" "toLowerCase [] = []"
  by (simp_all add: toLowerCase_def lowerChar_def char_of_def bit_Suc_0_iff)

theorem special_emoji_witness:
  "(1, 1, 1, 1) \<in> set [(0, 1, 2, 3), (1, 1, 1, 1)] \<and> rooms exLuc (drawCode (1, 1, 1, 1)) = None
   \<and> (\<exists>res s'. createRoom (Some ''p1'') [(0, 1, 2, 3), (1, 1, 1, 1)] 2000 exLuc = Some (res, s')
         \<and> map_option emoji (players s' ''p1'') = Some pooEmoji)
   \<and> rooms exLuc (toUpperCase ''abcd'') \<noteq> None
   \<and> map_option emoji (players (snd (joinRoom (Some ''p1'') ''abcd'' exLuc)) ''p1'') = Some pooEmoji"
proof -
  let ?pl = "\<lparr>playerId = ''p1'', username = Some ''Luc'', emoji = ''dog'',
               roomCode = Some ''ABCD'', isHost = False\<rparr>"
  have k: "knownSession (Some ''p1'') exLuc = Some (''p1'', ?pl)"
    by (simp add: knownSession_def exLuc_def)
  have l: "''luc'' = toLowerCase (case username ?pl of None \<Rightarrow> [] | Some u \<Rightarrow> u)"
    by (simp add: lower_Luc)
  have x: "pooEmoji = (if ''luc'' = ''luc'' \<or> ''luc'' = ''lucas'' then pooEmoji else emoji ?pl)"
    by simp
  have d: "(1, 1, 1, 1) \<in> set [(0, 1, 2, 3), (1, 1, 1, 1)]"
    "rooms exLuc (drawCode (1, 1, 1, 1)) = None"
    by (simp_all add: exLuc_def exState_def letterAt_def letters_def)
  have r: "rooms exLuc (toUpperCase ''abcd'') \<noteq> None"
    by (simp add: exLuc_def exState_def upper_ABCD)
  from special_emoji [OF k l x, of "(1, 1, 1, 1)" "[(0, 1, 2, 3), (1, 1, 1, 1)]" 2000 "''abcd''"] d r
  show ?thesis by auto
qed

text \<open>A player without a username keeps the avatar.\<close>

lemma special_emoji_other:
  "map_option emoji (players (snd (joinRoom (Some ''p2'') ''abcd'' exLuc)) ''p2'') = Some ''fox''"
proof -
  let ?pl = "\<lparr>playerId = ''p2'', username = None, emoji = ''fox'',
               roomCode = Some ''ABCD'', isHost = False\<rparr>"
  have k: "knownSession (Some ''p2'') exLuc = Some (''p2'', ?pl)"
    by (simp add: knownSession_def exLuc_def exState_def)
  have e: "map_option emoji (players (updPlayer ''p2'' specialEmoji (leaveCurrent ''p2'' exLuc)) ''p2'')
      = Some ''fox''"
    using specialEmoji_after_leave [of exLuc "''p2''" ?pl] k
    by (simp add: knownSession_SomeD lower_Luc Let_def)
  have r: "rooms exLuc (toUpperCase ''abcd'') \<noteq> None"
    by (simp add: exLuc_def exState_def upper_ABCD)
  from joinRoom_emoji [OF k r] e show ?thesis by simp
qed

lemma ex_left_run: "run exRoleSets exLeaveRequests exState = Some exLeft"
  by (simp add: exLeaveRequests_def exLeft_def exLeftRoom_def exState_def exRoom_def
        postPlayerOrder_def killPlayer_def markDrunk_def postLeave_def leaveCurrent_def
        leaveRoom_def updPlayer_def knownSession_def upper_ABCD Let_def fun_eq_iff)

lemma ex_left_reachable: "reachable exRoleSets exLeft"
  using run_reachable [OF ex_reachable ex_left_run] .

lemma ex_solo_run:
  "run exRoleSets [GetSession None ''h'' ''cat'', PostCreate (Some ''h'') [(0, 1, 2, 3)] 1000]
     initState = Some exSolo"
  by (simp add: exSolo_def exRoom_def eval_simps fun_eq_iff)

lemma ex_solo_reachable: "reachable exRoleSets exSolo"
  using run_reachable [OF reachable_init ex_solo_run] .

lemma finalOrder_Some:
  "finalOrder (Some stored) members
     = filter (\<lambda>i. i \<in> set members) stored @ filter (\<lambda>i. i \<notin> set stored) members"
  by (auto simp add: finalOrder_def Let_def intro: filter_cong)

lemma finalOrder_None: "finalOrder None members = members"
  by (simp add: finalOrder_def Let_def)

lemma set_finalOrder: "set (finalOrder stored members) = set members"
  by (cases stored) (auto simp add: finalOrder_Some finalOrder_None)

lemma distinct_finalOrder:
  "distinct members \<Longrightarrow> (\<And>ord. stored = Some ord \<Longrightarrow> distinct ord)
     \<Longrightarrow> distinct (finalOrder stored members)"
  by (cases stored) (auto simp add: finalOrder_Some finalOrder_None)

text \<open>
  C6 (as amended). The order computed on read holds exactly the current members of the room,
  as a set. With no stored order it is the member list; with a stored order it is the stored
  order restricted to the current members, repetitions included, followed by the members
  absent from the stored order, in membership order. When the stored order names nobody twice,
  each current member occurs exactly once.
\<close>

theorem seating_effective_order:
  assumes "reachable rsets s"
    and "rooms s (toUpperCase rawCode) = Some room"
    and "members = room_players room"
  shows "\<exists>roomPlayers ord. getRoom rawCode s = Inr (room, roomPlayers, ord)
     \<and> set ord = set members
     \<and> (playerOrder s (toUpperCase rawCode) = None \<longrightarrow> ord = members)
     \<and> (\<forall>stored. playerOrder s (toUpperCase rawCode) = Some stored \<longrightarrow>
           ord = filter (\<lambda>i. i \<in> set members) stored @ filter (\<lambda>i. i \<notin> set stored) members)
     \<and> ((\<forall>stored. playerOrder s (toUpperCase rawCode) = Some stored \<longrightarrow> distinct stored)
           \<longrightarrow> distinct ord)"
proof -
  from assms(1,2) have "roomOk s (toUpperCase rawCode) room"
    by (simp add: reachable_consistent [unfolded consistent_def roomsOk_def])
  with assms(3) have d: "distinct members" by (simp add: roomOk_def)
  let ?ord = "finalOrder (playerOrder s (toUpperCase rawCode)) members"
  from assms(2,3) obtain roomPlayers where g: "getRoom rawCode s = Inr (room, roomPlayers, ?ord)"
    by (simp add: getRoom_def Let_def)
  have a1: "set ?ord = set members" by (rule set_finalOrder)
  have a2: "playerOrder s (toUpperCase rawCode) = None \<longrightarrow> ?ord = members"
    by (simp add: finalOrder_None)
  have a3: "\<forall>stored. playerOrder s (toUpperCase rawCode) = Some stored \<longrightarrow>
       ?ord = filter (\<lambda>i. i \<in> set members) stored @ filter (\<lambda>i. i \<notin> set stored) members"
    by (simp add: finalOrder_Some)
  have a4: "(\<forall>stored. playerOrder s (toUpperCase rawCode) = Some stored \<longrightarrow> distinct stored)
       \<longrightarrow> distinct ?ord"
    using d by (auto intro: distinct_finalOrder)
  show ?thesis
    by (rule exI [of _ roomPlayers], rule exI [of _ ?ord]) (intro conjI g a1 a2 a3 a4)
qed

theorem seating_effective_order_witness:
  "reachable exRoleSets exLeft
   \<and> playerOrder exLeft (toUpperCase ''abcd'') = Some [''p2'', ''p1'']
   \<and> distinct [''p2'', ''p1'']
   \<and> (\<exists>roomPlayers. getRoom ''abcd'' exLeft = Inr (exLeftRoom, roomPlayers, [''p2'', ''h'']))"
proof -
  have r: "rooms exLeft (toUpperCase ''abcd'') = Some exLeftRoom"
    by (simp add: exLeft_def upper_ABCD)
  have m: "[''h'', ''p2''] = room_players exLeftRoom" by (simp add: exLeftRoom_def)
  have p: "playerOrder exLeft (toUpperCase ''abcd'') = Some [''p2'', ''p1'']"
    by (simp add: exLeft_def upper_ABCD)
  from seating_effective_order [OF ex_left_reachable r m] p ex_left_reachable
  show ?thesis by auto
qed

text \<open>
  C6 as stated fails: a member can occur twice. The order handler keeps the repeated entry of
  the host's proposal \<open>p1, p1\<close>, and the order computed on read is \<open>p1, p1, h, p2\<close> for
  the members \<open>h, p1, p2\<close>.
\<close>

theorem seating_counterexample:
  "playerOrder exDupOrder ''ABCD'' = Some [''p1'', ''p1'']
   \<and> map_sum id (snd \<circ> snd) (getRoom ''ABCD'' exDupOrder) = Inr [''p1'', ''p1'', ''h'', ''p2'']
   \<and> map_sum id (room_players \<circ> fst) (getRoom ''ABCD'' exDupOrder) = Inr [''h'', ''p1'', ''p2'']
   \<and> \<not> distinct [''p1'', ''p1'', ''h'', ''p2'']"
  by (simp add: exDupOrder_def postPlayerOrder_def getRoom_def finalOrder_def knownSession_def
        exState_def exRoom_def upper_ABCD Let_def)

text \<open>
  What holds of C7: kill-player and mark-drunk, asked by the host for a target that is not a
  member, answer 400 \<open>Player not in room\<close> and change nothing.
\<close>

lemma kill_markDrunk_nonmember_rejected:
  assumes "knownSession ck s = Some (p, pl)"
    and "rooms s (toUpperCase rawCode) = Some room"
    and "hostId room = p"
    and "target \<notin> set (room_players room)"
  shows "killPlayer ck rawCode target s = (Inl (Error 400 ''Player not in room''), s)
     \<and> markDrunk ck rawCode target s = (Inl (Error 400 ''Player not in room''), s)"
  using assms by (simp add: killPlayer_def markDrunk_def playerNotInRoom_def Let_def)

text \<open>
  C7 fails for revive-player and unmark-drunk. In the reachable example \<open>p1\<close> has left the
  room and is still in its dead and drunk sets; the host's revive and unmark requests for
  \<open>p1\<close>, who is no member, succeed and empty the sets, where kill-player and mark-drunk
  answer 400 for the same target.
\<close>

theorem revive_unmark_nonmember_accepted:
  "''p1'' \<notin> set (room_players exLeftRoom)
   \<and> rooms exLeft ''ABCD'' = Some exLeftRoom
   \<and> deadPlayers exLeft ''ABCD'' = Some {''p1''}
   \<and> drunkPlayers exLeft ''ABCD'' = Some {''p1''}
   \<and> fst (revivePlayer (Some ''h'') ''ABCD'' ''p1'' exLeft) = Inr ()
   \<and> deadPlayers (snd (revivePlayer (Some ''h'') ''ABCD'' ''p1'' exLeft)) ''ABCD'' = Some {}
   \<and> fst (unmarkDrunk (Some ''h'') ''ABCD'' ''p1'' exLeft) = Inr ()
   \<and> drunkPlayers (snd (unmarkDrunk (Some ''h'') ''ABCD'' ''p1'' exLeft)) ''ABCD'' = Some {}
   \<and> killPlayer (Some ''h'') ''ABCD'' ''p1'' exLeft = (Inl (Error 400 ''Player not in room''), exLeft)
   \<and> markDrunk (Some ''h'') ''ABCD'' ''p1'' exLeft = (Inl (Error 400 ''Player not in room''), exLeft)"
  by (simp add: exLeft_def exLeftRoom_def exRoom_def revivePlayer_def unmarkDrunk_def
        killPlayer_def markDrunk_def playerNotInRoom_def knownSession_def upper_ABCD Let_def)

text \<open>
  C5 fails: join is no idempotent add. A member who joins the room again first leaves it. In
  the reachable example the host \<open>h\<close> of the room with members \<open>h, p1, p2\<close> joins again:
  the member list becomes \<open>p1, p2, h\<close> and the host becomes \<open>p1\<close>. When the only member
  of a room joins it again, the leave deletes the room and the handler throws.
\<close>

theorem join_again_not_idempotent:
  "map_option room_players (rooms exState ''ABCD'') = Some [''h'', ''p1'', ''p2'']
   \<and> map_option hostId (rooms exState ''ABCD'') = Some ''h''
   \<and> map_option room_players (rooms (snd (joinRoom (Some ''h'') ''ABCD'' exState)) ''ABCD'')
       = Some [''p1'', ''p2'', ''h'']
   \<and> map_option hostId (rooms (snd (joinRoom (Some ''h'') ''ABCD'' exState)) ''ABCD'') = Some ''p1''
   \<and> map_option room_players (rooms exSolo ''ABCD'') = Some [''h'']
   \<and> fst (joinRoom (Some ''h'') ''ABCD'' exSolo) = Inl (Uncaught ''TypeError'')
   \<and> rooms (snd (joinRoom (Some ''h'') ''ABCD'' exSolo)) ''ABCD'' = None"
  by (simp add: exState_def exSolo_def exRoom_def joinRoom_def leaveCurrent_def leaveRoom_def
        updPlayer_def specialEmoji_def knownSession_def upper_ABCD lower_Luc Let_def)

lemma clearRoles_apply: "clearRoles ps m p = (if p \<in> set ps then None else m p)"
  unfolding clearRoles_def by (induction ps arbitrary: m) auto

lemma pairRoles_Cons [simp]:
  "pairRoles (p # ps) (r # rs) m = pairRoles ps rs (m(p \<mapsto> r))"
  by (simp add: pairRoles_def)

lemma pairRoles_notin: "p \<notin> set ps \<Longrightarrow> pairRoles ps rs m p = m p"
proof (induction ps arbitrary: rs m)
  case Nil
  then show ?case by (simp add: pairRoles_def)
next
  case (Cons q ps)
  then show ?case by (cases rs) (auto simp add: pairRoles_def)
qed

lemma pairRoles_map:
  "length ps = length rs \<Longrightarrow> distinct ps \<Longrightarrow> map (pairRoles ps rs m) ps = map Some rs"
proof (induction ps rs arbitrary: m rule: list_induct2)
  case Nil
  then show ?case by simp
next
  case (Cons p ps r rs)
  then show ?case by (simp add: pairRoles_notin)
qed

lemma reachable_host_session:
  assumes "reachable rsets s" "rooms s c = Some room"
  shows "\<exists>pl. knownSession (Some (hostId room)) s = Some (hostId room, pl)
               \<and> roomCode pl = Some c"
proof -
  from assms have c: "players s [] = None" and ok: "roomOk s c room"
    by (simp_all add: reachable_consistent [unfolded consistent_def roomsOk_def])
  then have "memberOf s (hostId room) c" by (simp add: roomOk_def)
  then obtain pl where "players s (hostId room) = Some pl" "roomCode pl = Some c"
    by (auto simp add: memberOf_def)
  with c show ?thesis by (auto simp add: knownSession_def)
qed

lemma assignRoles_success:
  assumes k: "knownSession (Some (hostId room)) s = Some (hostId room, pl)"
    and "rooms s (toUpperCase rawCode) = Some room"
    and "selectedRoles room \<noteq> []"
    and "length (filter (\<lambda>i. i \<noteq> hostId room) (room_players room)) = length (selectedRoles room)"
  shows "assignRoles (Some (hostId room)) rawCode shufflePlayers shuffleRoles s =
     (Inr (length (shuffleRoles (selectedRoles room))),
      s\<lparr>playerRoles := pairRoles (shufflePlayers (filter (\<lambda>i. i \<noteq> hostId room) (room_players room)))
            (shuffleRoles (selectedRoles room)) (clearRoles (room_players room) (playerRoles s)),
        rooms := (rooms s)(toUpperCase rawCode \<mapsto> room\<lparr>rolesAssigned := True\<rparr>)\<rparr>)"
  using assms by (simp add: assignRoles_def Let_def)

text \<open>
  C1. In a reachable state, when some roles are selected and the members other than the host
  are as many as the selected roles, the host's assign request succeeds. Afterwards the host
  has no role, every other member has one, the shuffled members hold the shuffled roles
  position by position, and the roles held by the members other than the host are the
  selected roles, each entry once. The only assumption on the two shuffles is that
  \<open>sort\<close> returns a permutation of its input.
\<close>

theorem assign_bijection:
  assumes "reachable rsets s"
    and "rooms s (toUpperCase rawCode) = Some room"
    and "selectedRoles room \<noteq> []"
    and "eligible = filter (\<lambda>i. i \<noteq> hostId room) (room_players room)"
    and "length eligible = length (selectedRoles room)"
    and "mset (shufflePlayers eligible) = mset eligible"
    and "mset (shuffleRoles (selectedRoles room)) = mset (selectedRoles room)"
    and "assignRoles (Some (hostId room)) rawCode shufflePlayers shuffleRoles s = (res, s')"
  shows "res = Inr (length (selectedRoles room))
     \<and> playerRoles s' (hostId room) = None
     \<and> (\<forall>p\<in>set (room_players room). p \<noteq> hostId room \<longrightarrow> playerRoles s' p \<noteq> None)
     \<and> map (playerRoles s') (shufflePlayers eligible) = map Some (shuffleRoles (selectedRoles room))
     \<and> mset (map (playerRoles s') eligible) = mset (map Some (selectedRoles room))"
proof -
  let ?sp = "shufflePlayers eligible" and ?sr = "shuffleRoles (selectedRoles room)"
  let ?cleared = "clearRoles (room_players room) (playerRoles s)"
  from assms(1,2) have ok: "roomOk s (toUpperCase rawCode) room"
    by (simp add: reachable_consistent [unfolded consistent_def roomsOk_def])
  from reachable_host_session [OF assms(1,2)]
  obtain pl where k: "knownSession (Some (hostId room)) s = Some (hostId room, pl)" by blast
  from assms(6) have lsp: "length ?sp = length eligible" by (rule mset_eq_length)
  from assms(7) have lsr: "length ?sr = length (selectedRoles room)" by (rule mset_eq_length)
  from assms(6) have ssp: "set ?sp = set eligible" by (rule mset_eq_setD)
  from ok assms(4) have "distinct eligible" by (simp add: roomOk_def)
  with mset_eq_imp_distinct_iff [OF assms(6)] have dsp: "distinct ?sp" by simp
  from assms(4) have el: "set eligible = set (room_players room) - {hostId room}" by auto
  from assignRoles_success [OF k assms(2,3) assms(5) [unfolded assms(4)],
          of shufflePlayers shuffleRoles] assms(8)
  have res: "res = Inr (length ?sr)"
    and pr: "playerRoles s' = pairRoles ?sp ?sr ?cleared"
    unfolding assms(4) by auto
  from lsp lsr assms(5) dsp have pos: "map (playerRoles s') ?sp = map Some ?sr"
    by (simp add: pr pairRoles_map)
  have host: "playerRoles s' (hostId room) = None"
  proof -
    have "hostId room \<notin> set ?sp" by (simp add: ssp el)
    moreover from ok have "hostId room \<in> set (room_players room)" by (simp add: roomOk_def)
    ultimately show ?thesis by (simp add: pr pairRoles_notin clearRoles_apply)
  qed
  have every: "\<forall>p\<in>set (room_players room). p \<noteq> hostId room \<longrightarrow> playerRoles s' p \<noteq> None"
  proof (intro ballI impI)
    fix p assume "p \<in> set (room_players room)" "p \<noteq> hostId room"
    then have "p \<in> set ?sp" by (simp add: ssp el)
    then have "playerRoles s' p \<in> set (map (playerRoles s') ?sp)" by simp
    then show "playerRoles s' p \<noteq> None" by (auto simp add: pos)
  qed
  have "mset (map (playerRoles s') eligible) = image_mset (playerRoles s') (mset ?sp)"
    by (simp add: assms(6))
  also have "\<dots> = mset (map (playerRoles s') ?sp)" by simp
  also have "\<dots> = image_mset Some (mset ?sr)" by (simp add: pos)
  also have "\<dots> = mset (map Some (selectedRoles room))" by (simp add: assms(7))
  finally have ms: "mset (map (playerRoles s') eligible) = mset (map Some (selectedRoles room))" .
  from res lsr host every pos ms show ?thesis by simp
qed

theorem assign_bijection_witness:
  "reachable exRoleSets exState
   \<and> fst (assignRoles (Some ''h'') ''abcd'' rev rev exState) = Inr 2
   \<and> playerRoles (snd (assignRoles (Some ''h'') ''abcd'' rev rev exState)) ''h'' = None
   \<and> map (playerRoles (snd (assignRoles (Some ''h'') ''abcd'' rev rev exState))) [''p2'', ''p1'']
       = [Some exImp, Some exChef]"
proof -
  have r: "rooms exState (toUpperCase ''abcd'') = Some exRoom"
    by (simp add: exState_def upper_ABCD)
  have n: "selectedRoles exRoom \<noteq> []" by (simp add: exRoom_def)
  have e: "[''p1'', ''p2''] = filter (\<lambda>i. i \<noteq> hostId exRoom) (room_players exRoom)"
    by (simp add: exRoom_def)
  have l: "length [''p1'', ''p2''] = length (selectedRoles exRoom)" by (simp add: exRoom_def)
  have m1: "mset (rev [''p1'', ''p2'']) = mset [''p1'', ''p2'']" by simp
  have m2: "mset (rev (selectedRoles exRoom)) = mset (selectedRoles exRoom)" by simp
  have h: "hostId exRoom = ''h''" by (simp add: exRoom_def)
  have a: "assignRoles (Some (hostId exRoom)) ''abcd'' rev rev exState
     = (fst (assignRoles (Some ''h'') ''abcd'' rev rev exState),
        snd (assignRoles (Some ''h'') ''abcd'' rev rev exState))"
    by (simp add: h)
  from assign_bijection [OF ex_reachable r n e l m1 m2 a] ex_reachable
  show ?thesis by (simp add: exRoom_def)
qed

lemma leaveRoom_tables:
  assumes "rooms s rc = Some room" "filter (\<lambda>i. i \<noteq> p) (room_players room) = []"
  shows "rooms (leaveRoom p rc s) rc = None \<and> deadPlayers (leaveRoom p rc s) rc = None
     \<and> drunkPlayers (leaveRoom p rc s) rc = None \<and> playerOrder (leaveRoom p rc s) rc = None
     \<and> chatMessages (leaveRoom p rc s) rc = None"
  using assms by (simp add: leaveRoom_def Let_def)

lemma postLeave_member:
  assumes "reachable rsets s" "rooms s c = Some room" "p \<in> set (room_players room)"
  shows "postLeave (Some p) s = (Inr (), leaveRoom p c s)"
proof -
  from assms(1,2) have c: "players s [] = None" and ok: "roomOk s c room"
    by (simp_all add: reachable_consistent [unfolded consistent_def roomsOk_def])
  with assms(3) have "memberOf s p c" and ne: "c \<noteq> []" by (simp_all add: roomOk_def)
  then obtain pl where pl: "players s p = Some pl" "roomCode pl = Some c"
    by (auto simp add: memberOf_def)
  with c have "knownSession (Some p) s = Some (p, pl)" by (auto simp add: knownSession_def)
  with pl ne assms(2) show ?thesis by (simp add: postLeave_def leaveCurrent_def)
qed

lemma filter_other_nonempty:
  assumes "distinct xs" "2 \<le> length xs"
  shows "filter (\<lambda>i. i \<noteq> p) xs \<noteq> []"
proof
  assume "filter (\<lambda>i. i \<noteq> p) xs = []"
  then have "set xs \<subseteq> {p}" by (auto simp add: filter_empty_conv)
  then have "card (set xs) \<le> card {p}" by (intro card_mono) simp_all
  with assms(1) have "length xs \<le> 1" by (simp add: distinct_card)
  with assms(2) show False by simp
qed

text \<open>
  C3. In a reachable state, when the host of a room with at least two members leaves, the
  room keeps the other members in their order and its host becomes the first of them; when
  the only member of a room leaves, the room and its dead set, drunk set, seating order and
  chat messages are deleted, and a later join with that code, by any known session, answers
  404 \<open>Room not found\<close> and changes nothing.
\<close>

theorem leave_transfers_host_or_deletes_room:
  assumes "reachable rsets s"
    and "rooms s c = Some room"
    and "postLeave (Some p) s = (res, s')"
  shows "(p = hostId room \<and> 2 \<le> length (room_players room) \<longrightarrow>
            (\<exists>room'. rooms s' c = Some room'
               \<and> room_players room' = filter (\<lambda>i. i \<noteq> p) (room_players room)
               \<and> room_players room' \<noteq> []
               \<and> hostId room' = room_players room' ! 0))
     \<and> (room_players room = [p] \<longrightarrow>
            rooms s' c = None \<and> deadPlayers s' c = None \<and> drunkPlayers s' c = None
            \<and> playerOrder s' c = None \<and> chatMessages s' c = None
            \<and> toUpperCase c = c
            \<and> (\<forall>ck rawCode. knownSession ck s' \<noteq> None \<and> toUpperCase rawCode = c \<longrightarrow>
                  joinRoom ck rawCode s' = (Inl (Error 404 ''Room not found''), s')))"
proof (rule conjI; rule impI)
  from assms(1,2) have ok: "roomOk s c room"
    by (simp add: reachable_consistent [unfolded consistent_def roomsOk_def])
  {
    assume a: "p = hostId room \<and> 2 \<le> length (room_players room)"
    with ok have "p \<in> set (room_players room)" by (simp add: roomOk_def)
    from postLeave_member [OF assms(1,2) this] assms(3) have s': "s' = leaveRoom p c s" by simp
    from ok a have ne: "filter (\<lambda>i. i \<noteq> p) (room_players room) \<noteq> []"
      by (simp add: roomOk_def filter_other_nonempty)
    with assms(2) a show "\<exists>room'. rooms s' c = Some room'
               \<and> room_players room' = filter (\<lambda>i. i \<noteq> p) (room_players room)
               \<and> room_players room' \<noteq> []
               \<and> hostId room' = room_players room' ! 0"
      by (simp add: s' rooms_leaveRoom Let_def)
  }
  {
    assume a: "room_players room = [p]"
    then have "p \<in> set (room_players room)" by simp
    from postLeave_member [OF assms(1,2) this] assms(3) have s': "s' = leaveRoom p c s" by simp
    from a have "filter (\<lambda>i. i \<noteq> p) (room_players room) = []" by simp
    from leaveRoom_tables [OF assms(2) this]
    show t: "rooms s' c = None \<and> deadPlayers s' c = None \<and> drunkPlayers s' c = None
            \<and> playerOrder s' c = None \<and> chatMessages s' c = None
            \<and> toUpperCase c = c
            \<and> (\<forall>ck rawCode. knownSession ck s' \<noteq> None \<and> toUpperCase rawCode = c \<longrightarrow>
                  joinRoom ck rawCode s' = (Inl (Error 404 ''Room not found''), s'))"
      using ok by (auto simp add: s' roomOk_def joinRoom_def roomNotFound_def Let_def)
  }
qed

theorem leave_transfers_host_or_deletes_room_witness:
  "reachable exRoleSets exState \<and> rooms exState ''ABCD'' = Some exRoom
   \<and> ''h'' = hostId exRoom \<and> 2 \<le> length (room_players exRoom)
   \<and> map_option room_players (rooms (snd (postLeave (Some ''h'') exState)) ''ABCD'')
        = Some [''p1'', ''p2'']
   \<and> map_option hostId (rooms (snd (postLeave (Some ''h'') exState)) ''ABCD'') = Some ''p1''
   \<and> reachable exRoleSets exSolo
   \<and> map_option room_players (rooms exSolo ''ABCD'') = Some [''h'']
   \<and> rooms (snd (postLeave (Some ''h'') exSolo)) ''ABCD'' = None
   \<and> knownSession (Some ''h'') (snd (postLeave (Some ''h'') exSolo)) \<noteq> None
   \<and> toUpperCase ''abcd'' = ''ABCD''
   \<and> joinRoom (Some ''h'') ''abcd'' (snd (postLeave (Some ''h'') exSolo))
        = (Inl (Error 404 ''Room not found''), snd (postLeave (Some ''h'') exSolo))"
proof -
  let ?s1 = "snd (postLeave (Some ''h'') exState)"
  let ?soloRoom = "exRoom\<lparr>room_players := [''h''], selectedRoles := []\<rparr>"
  let ?s2 = "snd (postLeave (Some ''h'') exSolo)"
  have r1: "rooms exState ''ABCD'' = Some exRoom" by (simp add: exState_def)
  have h1: "''h'' = hostId exRoom \<and> 2 \<le> length (room_players exRoom)"
    by (simp add: exRoom_def)
  have p1: "postLeave (Some ''h'') exState = (fst (postLeave (Some ''h'') exState), ?s1)"
    by simp
  have r2: "rooms exSolo ''ABCD'' = Some ?soloRoom" by (simp add: exSolo_def)
  have h2: "room_players ?soloRoom = [''h'']" by simp
  have p2: "postLeave (Some ''h'') exSolo = (fst (postLeave (Some ''h'') exSolo), ?s2)"
    by simp
  have k: "knownSession (Some ''h'') ?s2 \<noteq> None"
    by (simp add: exSolo_def exRoom_def postLeave_def leaveCurrent_def leaveRoom_def
          updPlayer_def knownSession_def Let_def)
  note t1 = leave_transfers_host_or_deletes_room
                [OF ex_reachable r1 p1, THEN conjunct1, THEN mp, OF h1]
  then obtain room' where "rooms ?s1 ''ABCD'' = Some room'"
    "room_players room' = filter (\<lambda>i. i \<noteq> ''h'') (room_players exRoom)"
    "hostId room' = room_players room' ! 0"
    by (elim exE conjE)
  then have a: "map_option room_players (rooms ?s1 ''ABCD'') = Some [''p1'', ''p2'']
     \<and> map_option hostId (rooms ?s1 ''ABCD'') = Some ''p1''"
    by (simp add: exRoom_def)
  note t2 = leave_transfers_host_or_deletes_room
                [OF ex_solo_reachable r2 p2, THEN conjunct2, THEN mp, OF h2]
  have b: "rooms ?s2 ''ABCD'' = None" using t2 by (rule conjunct1)
  have c: "\<forall>ck rawCode. knownSession ck ?s2 \<noteq> None \<and> toUpperCase rawCode = ''ABCD'' \<longrightarrow>
                  joinRoom ck rawCode ?s2 = (Inl (Error 404 ''Room not found''), ?s2)"
    using t2 by - (elim conjE, assumption)
  have d: "joinRoom (Some ''h'') ''abcd'' ?s2 = (Inl (Error 404 ''Room not found''), ?s2)"
    by (rule c [rule_format, OF conjI [OF k upper_ABCD(2)]])
  from r2 have e: "map_option room_players (rooms exSolo ''ABCD'') = Some [''h'']" by simp
  show ?thesis
    by (intro conjI ex_reachable ex_solo_reachable r1 h1 [THEN conjunct1] h1 [THEN conjunct2]
          a [THEN conjunct1] a [THEN conjunct2] b d e k upper_ABCD(2))
qed

end
